theory Spec2Isabelle
  imports Complex_Main
begin

section \<open>Python values\<close>

text \<open>
  Every value the plugin handles comes out of \<^verbatim>\<open>json.loads\<close>, \<^verbatim>\<open>response.json()\<close> or a
  dict literal of the source, so one datatype of JSON values is the model of a Python
  value: \<open>JNull\<close> is \<^verbatim>\<open>None\<close>, \<open>JObj\<close> is a \<^verbatim>\<open>dict\<close> with string keys, kept as an
  association list in insertion order and read with \<open>map_of\<close> (\<^verbatim>\<open>json.loads\<close> never
  yields a key twice), \<open>JArr\<close> is a \<^verbatim>\<open>list\<close>. Numbers are Python's unbounded \<^verbatim>\<open>int\<close>;
  JSON numbers with a fraction or an exponent (Python \<^verbatim>\<open>float\<close>) are not in the model.
\<close>

datatype json =
    JNull
  | JBool bool
  | JNum int
  | JStr string
  | JArr "json list"
  | JObj "(string \<times> json) list"

text \<open>
  What an f-string or a printed line is made of: literal text, \<^verbatim>\<open>str(v)\<close> of a value,
  the \<^verbatim>\<open>repr\<close> of a \<^verbatim>\<open>bytes\<close> object, \<^verbatim>\<open>json.dumps(v)\<close>. The rendering itself is
  left to Python; the model keeps the parts.
\<close>

datatype piece = Text string | Str json | Bytes string | Dumps json

text \<open>
  The exceptions the two files can raise: \<^verbatim>\<open>Exception(message)\<close> of the source's own
  \<^verbatim>\<open>raise\<close> statements, the built-in errors of subscripting, attribute access and
  \<^verbatim>\<open>list.remove\<close>, the decoding error of \<^verbatim>\<open>json.loads\<close> and \<^verbatim>\<open>response.json()\<close>, and
  whatever \<^verbatim>\<open>requests.post\<close> raises when no response arrives.
\<close>

datatype exn =
    Exception "piece list"
  | KeyError json
  | TypeError
  | AttributeError
  | IndexError
  | ValueError
  | JSONDecodeError
  | RequestException

definition bindE :: "exn + 'a \<Rightarrow> ('a \<Rightarrow> exn + 'b) \<Rightarrow> exn + 'b" where
  "bindE m f = (case m of Inl e \<Rightarrow> Inl e | Inr x \<Rightarrow> f x)"

text \<open>\<^verbatim>\<open>bool(v)\<close>, as \<^verbatim>\<open>if v:\<close> tests it.\<close>

fun py_truthy :: "json \<Rightarrow> bool" where
  "py_truthy JNull = False"
| "py_truthy (JBool b) = b"
| "py_truthy (JNum n) = (n \<noteq> 0)"
| "py_truthy (JStr s) = (s \<noteq> [])"
| "py_truthy (JArr xs) = (xs \<noteq> [])"
| "py_truthy (JObj kvs) = (kvs \<noteq> [])"

text \<open>\<^verbatim>\<open>v[key]\<close> with a string key.\<close>

fun py_getitem :: "json \<Rightarrow> string \<Rightarrow> exn + json" where
  "py_getitem (JObj kvs) k =
     (case map_of kvs k of None \<Rightarrow> Inl (KeyError (JStr k)) | Some v \<Rightarrow> Inr v)"
| "py_getitem _ k = Inl TypeError"

text \<open>\<^verbatim>\<open>v[0]\<close>. A dict of JSON has string keys only, so the key \<^verbatim>\<open>0\<close> is never there.\<close>

fun py_getitem0 :: "json \<Rightarrow> exn + json" where
  "py_getitem0 (JArr []) = Inl IndexError"
| "py_getitem0 (JArr (x # xs)) = Inr x"
| "py_getitem0 (JStr []) = Inl IndexError"
| "py_getitem0 (JStr (c # cs)) = Inr (JStr [c])"
| "py_getitem0 (JObj kvs) = Inl (KeyError (JNum 0))"
| "py_getitem0 _ = Inl TypeError"

text \<open>\<^verbatim>\<open>v.get(key)\<close> and \<^verbatim>\<open>v.get(key, None)\<close>: only a dict has the method.\<close>

fun py_get :: "json \<Rightarrow> string \<Rightarrow> exn + json" where
  "py_get (JObj kvs) k = Inr (case map_of kvs k of None \<Rightarrow> JNull | Some v \<Rightarrow> v)"
| "py_get _ k = Inl AttributeError"

text \<open>\<^verbatim>\<open>iter(v)\<close>, run to its end: the elements of a list, the keys of a dict, the
  characters of a string.\<close>

fun py_iter :: "json \<Rightarrow> exn + json list" where
  "py_iter (JArr xs) = Inr xs"
| "py_iter (JObj kvs) = Inr (map (\<lambda>kv. JStr (fst kv)) kvs)"
| "py_iter (JStr s) = Inr (map (\<lambda>c. JStr [c]) s)"
| "py_iter _ = Inl TypeError"

text \<open>
  \<^verbatim>\<open>x == y\<close>. \<^verbatim>\<open>True == 1\<close> and \<^verbatim>\<open>False == 0\<close> hold in Python; lists are equal
  element by element, dicts when they have the same keys with equal values, in any
  order.
\<close>

function py_eq :: "json \<Rightarrow> json \<Rightarrow> bool" where
  "py_eq JNull y = (y = JNull)"
| "py_eq (JBool a) y = (y = JBool a \<or> y = JNum (if a then 1 else 0))"
| "py_eq (JNum n) y =
     (y = JNum n \<or> (n = 1 \<and> y = JBool True) \<or> (n = 0 \<and> y = JBool False))"
| "py_eq (JStr s) y = (y = JStr s)"
| "py_eq (JArr xs) y = (case y of JArr ys \<Rightarrow> list_all2 py_eq xs ys | _ \<Rightarrow> False)"
| "py_eq (JObj a) y =
     (case y of
        JObj b \<Rightarrow>
          list_all (\<lambda>k. k \<in> set (map fst a)) (map fst b) \<and>
          list_all (\<lambda>k. case map_of a k of
                           None \<Rightarrow> False
                         | Some v \<Rightarrow>
                             (case map_of b k of None \<Rightarrow> False | Some w \<Rightarrow> py_eq v w))
                   (map fst a)
      | _ \<Rightarrow> False)"
  by pat_completeness auto
termination
proof -
  have value_smaller: "size v < size_list (size_prod (\<lambda>_. 0) size) kvs"
    if "map_of kvs k = Some v" for kvs :: "(string \<times> json) list" and k v
    using that by (induction kvs) (auto split: if_splits)
  show ?thesis
    apply (relation "measure (\<lambda>(x, y). size x)")
      apply simp
     apply (auto simp: less_Suc_eq_le size_list_estimation' dest!: value_smaller)
    done
qed

text \<open>
  \<^verbatim>\<open>xs.remove(x)\<close>: drops the first element equal to \<open>x\<close>, raises \<^verbatim>\<open>ValueError\<close> when
  there is none. The model returns the list that remains.
\<close>

fun py_remove :: "json list \<Rightarrow> json \<Rightarrow> exn + json list" where
  "py_remove [] x = Inl ValueError"
| "py_remove (e # es) x =
     (if py_eq e x then Inr es
      else (case py_remove es x of Inl err \<Rightarrow> Inl err | Inr r \<Rightarrow> Inr (e # r)))"

text \<open>How often a list holds a value, by Python's equality.\<close>

definition py_count :: "json list \<Rightarrow> json \<Rightarrow> nat" where
  "py_count xs x = length (filter (\<lambda>e. py_eq e x) xs)"

text \<open>A list comprehension \<^verbatim>\<open>[f(t) for t in ts]\<close> whose body may raise.\<close>

fun py_map :: "(json \<Rightarrow> exn + json) \<Rightarrow> json list \<Rightarrow> exn + json list" where
  "py_map f [] = Inr []"
| "py_map f (t # ts) =
     (case f t of
        Inl e \<Rightarrow> Inl e
      | Inr y \<Rightarrow> (case py_map f ts of Inl e \<Rightarrow> Inl e | Inr ys \<Rightarrow> Inr (y # ys)))"

section \<open>The process and its surroundings\<close>

text \<open>
  An HTTP request as \<^verbatim>\<open>requests.post(url, json=..., headers=..., cookies=...)\<close> sends
  it, and the response as the client reads it: \<^verbatim>\<open>status_code\<close>, \<^verbatim>\<open>content\<close>, and what
  \<^verbatim>\<open>response.json()\<close> returns (\<open>None\<close> when the body is no JSON document and the call
  raises).
\<close>

record request =
  req_url :: "piece list"
  req_json :: json
  req_headers :: "(string \<times> string) list"
  req_cookies :: "(string \<times> json) list"

record response =
  status_code :: int
  content :: string
  response_json :: "json option"

text \<open>
  Everything the process does that can be seen from outside, in order: the calls of the
  \<^verbatim>\<open>log\<close> module, the pauses, the HTTP requests, the lines printed on standard output.
  A reported progress \<^verbatim>\<open>float(upTo) / float(total)\<close> is kept as the exact quotient.
\<close>

datatype event =
    LogDebug "piece list"
  | LogInfo "piece list"
  | LogWarning "piece list"
  | LogProgress rat
  | Sleep nat
  | Post request
  | Print "piece list"

fun posts_of :: "event list \<Rightarrow> request list" where
  "posts_of [] = []"
| "posts_of (Post r # es) = r # posts_of es"
| "posts_of (e # es) = posts_of es"

fun prints_of :: "event list \<Rightarrow> piece list list" where
  "prints_of [] = []"
| "prints_of (Print p # es) = p # prints_of es"
| "prints_of (e # es) = prints_of es"

fun progress_of :: "event list \<Rightarrow> rat list" where
  "progress_of [] = []"
| "progress_of (LogProgress p # es) = p # progress_of es"
| "progress_of (e # es) = progress_of es"

text \<open>
  The remote service, a parameter of the model: what \<^verbatim>\<open>requests.post\<close> answers to a
  request, given the requests sent before it. It either raises or returns a response.
\<close>

type_synonym network = "request list \<Rightarrow> request \<Rightarrow> exn + response"

text \<open>
  A statement of the program: it reads the events so far, may add some, and either raises
  or returns a value.
\<close>

type_synonym 'a io = "event list \<Rightarrow> (exn + 'a) \<times> event list"

definition ret :: "'a \<Rightarrow> 'a io" where
  "ret x = (\<lambda>w. (Inr x, w))"

definition raise :: "exn \<Rightarrow> 'a io" where
  "raise e = (\<lambda>w. (Inl e, w))"

definition liftE :: "exn + 'a \<Rightarrow> 'a io" where
  "liftE m = (\<lambda>w. (m, w))"

definition emit :: "event \<Rightarrow> unit io" where
  "emit ev = (\<lambda>w. (Inr (), w @ [ev]))"

definition bindIO :: "'a io \<Rightarrow> ('a \<Rightarrow> 'b io) \<Rightarrow> 'b io" where
  "bindIO m f = (\<lambda>w. case m w of (Inl e, w') \<Rightarrow> (Inl e, w') | (Inr x, w') \<Rightarrow> f x w')"

definition post :: "network \<Rightarrow> request \<Rightarrow> response io" where
  "post net req = (\<lambda>w. (net (posts_of w) req, w @ [Post req]))"

section \<open>The GraphQL client: stash_interface.py\<close>

text \<open>The five GraphQL documents, character by character as the source writes them.\<close>

definition nl :: string where
  "nl = [CHR 0x0A]"

definition tab :: string where
  "tab = [CHR 0x09]"

definition allTags_query :: string where
  "allTags_query =
     nl @ ''query {'' @
     nl @ ''  allTags {'' @
     nl @ ''    id'' @
     nl @ ''    name'' @
     nl @ ''  }'' @
     nl @ ''}'' @
     nl @ tab @ tab"

definition tagCreate_query :: string where
  "tagCreate_query =
     nl @ ''mutation tagCreate($input:TagCreateInput!) {'' @
     nl @ ''  tagCreate(input: $input){'' @
     nl @ ''    id       '' @
     nl @ ''  }'' @
     nl @ ''}'' @
     nl"

definition tagDestroy_query :: string where
  "tagDestroy_query =
     nl @ ''mutation tagDestroy($input: TagDestroyInput!) {'' @
     nl @ ''  tagDestroy(input: $input)'' @
     nl @ ''}'' @
     nl"

definition findScenes_query :: string where
  "findScenes_query =
     nl @ ''query findScenes($filter: FindFilterType!) {'' @
     nl @ ''  findScenes(filter: $filter) {'' @
     nl @ ''    count'' @
     nl @ ''    scenes {'' @
     nl @ ''      id'' @
     nl @ ''      tags {'' @
     nl @ ''        id'' @
     nl @ ''      }'' @
     nl @ ''    }'' @
     nl @ ''  }'' @
     nl @ ''}'' @
     nl"

definition sceneUpdate_query :: string where
  "sceneUpdate_query =
     nl @ ''mutation sceneUpdate($input:SceneUpdateInput!) {'' @
     nl @ ''  sceneUpdate(input: $input) {'' @
     nl @ ''    id'' @
     nl @ ''  }'' @
     nl @ ''}'' @
     nl"

text \<open>The class attribute \<^verbatim>\<open>headers\<close>.\<close>

definition headers :: "(string \<times> string) list" where
  "headers =
     [(''Accept-Encoding'', ''gzip, deflate, br''),
      (''Content-Type'', ''application/json''),
      (''Accept'', ''application/json''),
      (''Connection'', ''keep-alive''),
      (''DNT'', ''1'')]"

text \<open>The instance attributes that \<^verbatim>\<open>__init__\<close> sets.\<close>

record client =
  port :: json
  url :: "piece list"
  cookies :: "(string \<times> json) list"

text \<open>
  \<^verbatim>\<open>StashInterface(conn)\<close>. \<^verbatim>\<open>conn.get('SessionCookie')\<close> is \<^verbatim>\<open>None\<close> when the key is
  absent, and \<^verbatim>\<open>None\<close> has no \<^verbatim>\<open>get\<close>.
\<close>

definition StashInterface :: "json \<Rightarrow> exn + client" where
  "StashInterface conn =
     bindE (py_getitem conn ''Port'') (\<lambda>p.
     bindE (py_getitem conn ''Scheme'') (\<lambda>scheme.
     bindE (py_get conn ''SessionCookie'') (\<lambda>cookie.
     bindE (py_get cookie ''Value'') (\<lambda>v.
       Inr \<lparr>port = p,
            url = [Str scheme, Text ''://localhost:'', Str p, Text ''/graphql''],
            cookies = [(''session'', v)]\<rparr>))))"

text \<open>The request that \<^verbatim>\<open>__callGraphQL\<close> posts; \<^verbatim>\<open>variables\<close> is left out when \<^verbatim>\<open>None\<close>.\<close>

definition graphql_request :: "client \<Rightarrow> string \<Rightarrow> json \<Rightarrow> request" where
  "graphql_request self query variables =
     \<lparr>req_url = url self,
      req_json = JObj ((''query'', JStr query) #
                       (if variables \<noteq> JNull then [(''variables'', variables)] else [])),
      req_headers = headers,
      req_cookies = cookies self\<rparr>"

text \<open>
  \<^verbatim>\<open>__callGraphQL\<close>, lines 25 to 43: one request; any status other than 200 raises before
  the body is decoded; then \<^verbatim>\<open>result["error"]["errors"]\<close> is looked at when
  \<^verbatim>\<open>result.get("error")\<close> is true, and the first element raises; then \<^verbatim>\<open>data\<close> is
  returned when it is true, \<^verbatim>\<open>None\<close> otherwise.
\<close>

definition callGraphQL :: "network \<Rightarrow> client \<Rightarrow> string \<Rightarrow> json \<Rightarrow> json io" where
  "callGraphQL net self query variables =
     bindIO (post net (graphql_request self query variables)) (\<lambda>response.
       if status_code response \<noteq> 200 then
         raise (Exception
           [Text ''GraphQL query failed:'', Str (JNum (status_code response)),
            Text '' - '', Bytes (content response),
            Text ''. Query: '', Text query,
            Text ''. Variables: '', Str variables])
       else
         bindIO (liftE (case response_json response of
                          None \<Rightarrow> Inl JSONDecodeError
                        | Some j \<Rightarrow> Inr j)) (\<lambda>result.
         bindIO (liftE (py_get result ''error'')) (\<lambda>err.
         bindIO (if py_truthy err then
                   bindIO (liftE (bindE (py_getitem result ''error'')
                                   (\<lambda>e. bindE (py_getitem e ''errors'') py_iter)))
                     (\<lambda>errors. case errors of
                                  [] \<Rightarrow> ret ()
                                | error # _ \<Rightarrow>
                                    raise (Exception [Text ''GraphQL error: '', Str error]))
                 else ret ()) (\<lambda>_.
         bindIO (liftE (py_get result ''data'')) (\<lambda>data.
           if py_truthy data then liftE (py_get result ''data'') else ret JNull)))))"

text \<open>
  The generator of \<^verbatim>\<open>findTagIdWithName\<close> under \<^verbatim>\<open>next(..., None)\<close>: the \<^verbatim>\<open>id\<close> of the
  first tag whose \<^verbatim>\<open>name\<close> equals \<open>name\<close>; later tags are not looked at.
\<close>

fun findTagIdWithName_next :: "string \<Rightarrow> json list \<Rightarrow> exn + json" where
  "findTagIdWithName_next name [] = Inr JNull"
| "findTagIdWithName_next name (tag # rest) =
     (case py_getitem tag ''name'' of
        Inl e \<Rightarrow> Inl e
      | Inr n \<Rightarrow>
          if py_eq n (JStr name) then py_getitem tag ''id''
          else findTagIdWithName_next name rest)"

text \<open>The five methods built on it. A method that returns nothing returns \<open>()\<close>.\<close>

definition findTagIdWithName :: "network \<Rightarrow> client \<Rightarrow> string \<Rightarrow> json io" where
  "findTagIdWithName net self name =
     bindIO (callGraphQL net self allTags_query JNull) (\<lambda>result.
       liftE (bindE (py_getitem result ''allTags'') (\<lambda>tags.
              bindE (py_iter tags) (findTagIdWithName_next name))))"

definition createTagWithName :: "network \<Rightarrow> client \<Rightarrow> string \<Rightarrow> json io" where
  "createTagWithName net self name =
     (let variables = JObj [(''input'', JObj [(''name'', JStr name)])] in
      bindIO (callGraphQL net self tagCreate_query variables) (\<lambda>result.
        liftE (bindE (py_getitem result ''tagCreate'') (\<lambda>t. py_getitem t ''id''))))"

definition destroyTag :: "network \<Rightarrow> client \<Rightarrow> json \<Rightarrow> unit io" where
  "destroyTag net self ident =
     (let variables = JObj [(''input'', JObj [(''id'', ident)])] in
      bindIO (callGraphQL net self tagDestroy_query variables) (\<lambda>_. ret ()))"

definition findRandomSceneId :: "network \<Rightarrow> client \<Rightarrow> json io" where
  "findRandomSceneId net self =
     (let variables =
        JObj [(''filter'', JObj [(''per_page'', JNum 1), (''sort'', JStr ''random'')])] in
      bindIO (callGraphQL net self findScenes_query variables) (\<lambda>result.
      bindIO (liftE (bindE (py_getitem result ''findScenes'')
                      (\<lambda>f. py_getitem f ''count''))) (\<lambda>count.
        if py_eq count (JNum 0) then ret JNull
        else liftE (bindE (py_getitem result ''findScenes'') (\<lambda>f.
                    bindE (py_getitem f ''scenes'') py_getitem0)))))"

definition updateScene :: "network \<Rightarrow> client \<Rightarrow> json \<Rightarrow> unit io" where
  "updateScene net self sceneData =
     (let variables = JObj [(''input'', sceneData)] in
      bindIO (callGraphQL net self sceneUpdate_query variables) (\<lambda>_. ret ()))"

section \<open>The plugin: pyplugin.py\<close>

text \<open>\<^verbatim>\<open>x in xs\<close> on a list.\<close>

definition py_in :: "json \<Rightarrow> json list \<Rightarrow> bool" where
  "py_in x xs = list_ex (\<lambda>e. py_eq e x) xs"

text \<open>\<^verbatim>\<open>d[key] = value\<close> on a dict.\<close>

fun py_setitem :: "(string \<times> json) list \<Rightarrow> string \<Rightarrow> json \<Rightarrow> (string \<times> json) list" where
  "py_setitem [] k v = [(k, v)]"
| "py_setitem ((k', v') # kvs) k v =
     (if k' = k then (k, v) # kvs else (k', v') # py_setitem kvs k v)"

text \<open>
  \<^verbatim>\<open>readJSONInput\<close>: standard input as \<^verbatim>\<open>json.loads\<close> reads it, \<open>None\<close> when it is no
  JSON document.
\<close>

definition readJSONInput :: "json option \<Rightarrow> json io" where
  "readJSONInput stdin = liftE (case stdin of None \<Rightarrow> Inl JSONDecodeError | Some j \<Rightarrow> Inr j)"

text \<open>
  The loop of \<^verbatim>\<open>doLongTask\<close> over \<^verbatim>\<open>range(total)\<close>: pause, then report.
  (\<open>total_steps\<close> is the source's \<^verbatim>\<open>total\<close>.)
\<close>

fun doLongTask_for :: "nat list \<Rightarrow> nat \<Rightarrow> event list \<Rightarrow> event list" where
  "doLongTask_for [] total_steps w = w"
| "doLongTask_for (upTo # rest) total_steps w =
     doLongTask_for rest total_steps
       (w @ [Sleep 1, LogProgress (rat_of_nat upTo / rat_of_nat total_steps)])"

definition doLongTask :: "unit io" where
  "doLongTask =
     (let total_steps = 100 in
      bindIO (emit (LogInfo [Text ''Doing long task''])) (\<lambda>_.
        (\<lambda>w. (Inr (), doLongTask_for [0..<total_steps] total_steps w))))"

text \<open>
  \<^verbatim>\<open>doIndefiniteTask\<close>: \<^verbatim>\<open>while True: time.sleep(1)\<close> has no exit. \<open>None\<close> is the
  statement that never returns.
\<close>

partial_function (option) doIndefiniteTask_while ::
  "event list \<Rightarrow> ((exn + unit) \<times> event list) option" where
  "doIndefiniteTask_while w = doIndefiniteTask_while (w @ [Sleep 1])"

declare doIndefiniteTask_while.simps [code]

definition doIndefiniteTask :: "event list \<Rightarrow> ((exn + unit) \<times> event list) option" where
  "doIndefiniteTask w =
     doIndefiniteTask_while (w @ [LogWarning [Text ''Sleeping indefinitely'']])"

text \<open>
  \<^verbatim>\<open>addTag\<close>, lines 71 to 98. \<^verbatim>\<open>tagID is None\<close> and \<^verbatim>\<open>scene is None\<close> are equalities with
  \<open>JNull\<close>.
\<close>

definition addTag :: "network \<Rightarrow> client \<Rightarrow> unit io" where
  "addTag net client =
     (let tagName = ''Hawwwwt'' in
      bindIO (findTagIdWithName net client tagName) (\<lambda>found.
      bindIO (if found = JNull then createTagWithName net client tagName
              else ret found) (\<lambda>tagID.
      bindIO (findRandomSceneId net client) (\<lambda>scene.
        if scene = JNull then raise (Exception [Text ''no scenes to add tag to''])
        else
          bindIO (liftE (bindE (py_getitem scene ''tags'') (\<lambda>tags.
                         bindE (py_iter tags) (py_map (\<lambda>t. py_getitem t ''id''))))) (\<lambda>tagIds.
          bindIO (case py_remove tagIds tagID of
                    Inl e \<Rightarrow> if e = ValueError then ret tagIds else raise e
                  | Inr removed \<Rightarrow> ret removed) (\<lambda>tagIds.
          let tagIds = tagIds @ [tagID] in
          bindIO (liftE (py_getitem scene ''id'')) (\<lambda>sceneId.
          let input = JObj [(''id'', sceneId), (''tag_ids'', JArr tagIds)] in
          bindIO (emit (LogInfo [Text ''Adding tag to scene '', Str sceneId])) (\<lambda>_.
            updateScene net client input))))))))"

text \<open>\<^verbatim>\<open>removeTag\<close>, lines 100 to 109.\<close>

definition removeTag :: "network \<Rightarrow> client \<Rightarrow> unit io" where
  "removeTag net client =
     (let tagName = ''Hawwwwt'' in
      bindIO (findTagIdWithName net client tagName) (\<lambda>tagID.
        if tagID = JNull then
          emit (LogInfo [Text ''Tag does not exist. Nothing to remove''])
        else
          bindIO (emit (LogInfo [Text ''Destroying tag''])) (\<lambda>_.
            destroyTag net client tagID)))"

text \<open>
  \<^verbatim>\<open>run(input, output)\<close>. The \<^verbatim>\<open>except\<close> clause re-raises what it caught; the two lines
  that would have stored the message in \<^verbatim>\<open>output["error"]\<close> are comments. The result is
  the \<^verbatim>\<open>output\<close> dict after the call, \<open>None\<close> when the call never returns.
\<close>

definition run ::
  "network \<Rightarrow> json \<Rightarrow> (string \<times> json) list \<Rightarrow> event list \<Rightarrow>
     ((exn + (string \<times> json) list) \<times> event list) option" where
  "run net input output w =
     (case bindE (py_getitem input ''args'') (\<lambda>args. py_getitem args ''mode'') of
        Inl e \<Rightarrow> Some (Inl e, w)
      | Inr modeArg \<Rightarrow>
          (case
             (if py_in modeArg [JStr [], JStr ''add''] then
                Some (bindIO (liftE (bindE (py_getitem input ''server_connection'')
                                       StashInterface))
                        (addTag net) w)
              else if py_eq modeArg (JStr ''remove'') then
                Some (bindIO (liftE (bindE (py_getitem input ''server_connection'')
                                       StashInterface))
                        (removeTag net) w)
              else if py_eq modeArg (JStr ''long'') then Some (doLongTask w)
              else if py_eq modeArg (JStr ''indef'') then doIndefiniteTask w
              else Some (Inr (), w))
           of
             None \<Rightarrow> None
           | Some (Inl e, w') \<Rightarrow> Some (Inl e, w')
           | Some (Inr _, w') \<Rightarrow>
               Some (Inr (py_setitem output ''output'' (JStr ''ok'')), w')))"

text \<open>
  \<^verbatim>\<open>main()\<close>, from the command line \<^verbatim>\<open>sys.argv\<close> and standard input. Its first
  half, up to the assignment of \<^verbatim>\<open>input\<close>, is \<open>main_input\<close>. An exception that leaves
  \<^verbatim>\<open>main\<close> ends the process; the events up to there are all it did.
\<close>

definition main_input :: "string list \<Rightarrow> json option \<Rightarrow> json io" where
  "main_input argv stdin =
     (if length argv < 2 then
        bindIO (readJSONInput stdin) (\<lambda>input.
        bindIO (emit (LogDebug [Text ''Raw input: '', Dumps input])) (\<lambda>_.
          ret input))
      else
        bindIO (emit (LogDebug [Text ''Using command line inputs''])) (\<lambda>_.
        let mode = argv ! 1 in
        bindIO (emit (LogDebug [Text ''Command line inputs: '',
                                Str (JArr (map JStr (drop 1 argv)))])) (\<lambda>_.
          ret (JObj [(''args'', JObj [(''mode'', JStr mode)]),
                     (''server_connection'',
                        JObj [(''Scheme'', JStr ''http''), (''Port'', JNum 9999)])]))))"

definition main ::
  "network \<Rightarrow> string list \<Rightarrow> json option \<Rightarrow> ((exn + unit) \<times> event list) option" where
  "main net argv stdin =
     (case main_input argv stdin [] of
        (Inl e, w) \<Rightarrow> Some (Inl e, w)
      | (Inr input, w) \<Rightarrow>
          (case run net input [] w of
             None \<Rightarrow> None
           | Some (Inl e, w') \<Rightarrow> Some (Inl e, w')
           | Some (Inr output, w') \<Rightarrow>
               Some (emit (Print [Dumps (JObj output), Text nl]) w')))"

section \<open>Reading a run\<close>

text \<open>The mode that \<^verbatim>\<open>run\<close> reads: \<^verbatim>\<open>input['args']["mode"]\<close>.\<close>

definition mode_of :: "json \<Rightarrow> exn + json" where
  "mode_of input = bindE (py_getitem input ''args'') (\<lambda>args. py_getitem args ''mode'')"

text \<open>The client that \<^verbatim>\<open>run\<close> builds: \<^verbatim>\<open>StashInterface(input["server_connection"])\<close>.\<close>

definition client_of :: "json \<Rightarrow> exn + client" where
  "client_of input = bindE (py_getitem input ''server_connection'') StashInterface"

text \<open>The requests that carry a given GraphQL document, and those that carry a mutation.\<close>

definition calls_of :: "string \<Rightarrow> request list \<Rightarrow> request list" where
  "calls_of query rs = filter (\<lambda>r. py_getitem (req_json r) ''query'' = Inr (JStr query)) rs"

definition mutations_of :: "request list \<Rightarrow> request list" where
  "mutations_of rs =
     filter (\<lambda>r. py_getitem (req_json r) ''query'' = Inr (JStr tagCreate_query) \<or>
                 py_getitem (req_json r) ''query'' = Inr (JStr tagDestroy_query) \<or>
                 py_getitem (req_json r) ''query'' = Inr (JStr sceneUpdate_query)) rs"

text \<open>The tag ids that a \<^verbatim>\<open>sceneUpdate\<close> request carries: \<^verbatim>\<open>variables.input.tag_ids\<close>.\<close>

definition tag_ids_of :: "request \<Rightarrow> exn + json" where
  "tag_ids_of r =
     bindE (py_getitem (req_json r) ''variables'') (\<lambda>v.
     bindE (py_getitem v ''input'') (\<lambda>i. py_getitem i ''tag_ids''))"

text \<open>The tag ids of a scene, as line 83 of \<^verbatim>\<open>addTag\<close> reads them.\<close>

definition scene_tag_ids :: "json \<Rightarrow> exn + json list" where
  "scene_tag_ids scene =
     bindE (py_getitem scene ''tags'') (\<lambda>tags.
     bindE (py_iter tags) (py_map (\<lambda>t. py_getitem t ''id'')))"

text \<open>The five requests of the client's methods.\<close>

definition allTags_request :: "client \<Rightarrow> request" where
  "allTags_request self = graphql_request self allTags_query JNull"

definition tagCreate_request :: "client \<Rightarrow> string \<Rightarrow> request" where
  "tagCreate_request self name =
     graphql_request self tagCreate_query (JObj [(''input'', JObj [(''name'', JStr name)])])"

definition tagDestroy_request :: "client \<Rightarrow> json \<Rightarrow> request" where
  "tagDestroy_request self ident =
     graphql_request self tagDestroy_query (JObj [(''input'', JObj [(''id'', ident)])])"

definition findScenes_request :: "client \<Rightarrow> request" where
  "findScenes_request self =
     graphql_request self findScenes_query
       (JObj [(''filter'', JObj [(''per_page'', JNum 1), (''sort'', JStr ''random'')])])"

definition sceneUpdate_request :: "client \<Rightarrow> json \<Rightarrow> request" where
  "sceneUpdate_request self sceneData =
     graphql_request self sceneUpdate_query (JObj [(''input'', sceneData)])"

text \<open>
  A list after \<^verbatim>\<open>try: xs.remove(x)\<close> \<^verbatim>\<open>except ValueError: pass\<close>, lines 85 to 88 of
  \<^verbatim>\<open>addTag\<close>.
\<close>

definition without_first :: "json list \<Rightarrow> json \<Rightarrow> json list" where
  "without_first xs x = (case py_remove xs x of Inl _ \<Rightarrow> xs | Inr r \<Rightarrow> r)"


text \<open>A statement that prints nothing on standard output.\<close>

definition silent :: "'a io \<Rightarrow> bool" where
  "silent m = (\<forall>w. prints_of (snd (m w)) = prints_of w)"

text \<open>What a finished process reported as progress.\<close>

definition progress_reports :: "((exn + unit) \<times> event list) option \<Rightarrow> rat list" where
  "progress_reports r = (case r of None \<Rightarrow> [] | Some (_, w) \<Rightarrow> progress_of w)"

section \<open>Sample inputs and remotes\<close>

text \<open>
  A connection as the host supplies it, the client built from it, and an input with a
  given mode.
\<close>

definition conn0 :: json where
  "conn0 =
     JObj [(''Scheme'', JStr ''http''), (''Port'', JNum 9999),
           (''SessionCookie'', JObj [(''Name'', JStr ''session''), (''Value'', JStr ''abc'')])]"

definition client0 :: client where
  "client0 =
     \<lparr>port = JNum 9999,
      url = [Str (JStr ''http''), Text ''://localhost:'', Str (JNum 9999), Text ''/graphql''],
      cookies = [(''session'', JStr ''abc'')]\<rparr>"

definition input0 :: "string \<Rightarrow> json" where
  "input0 mode = JObj [(''args'', JObj [(''mode'', JStr mode)]), (''server_connection'', conn0)]"

text \<open>The tag that \<^verbatim>\<open>addTag\<close> and \<^verbatim>\<open>removeTag\<close> look for, with the id \<^verbatim>\<open>"9"\<close>.\<close>

definition tag0 :: json where
  "tag0 = JObj [(''id'', JStr ''9''), (''name'', JStr ''Hawwwwt'')]"

text \<open>
  A response with a given status and JSON body. The sample responses leave the raw body
  empty: the client reads it only to report a status other than 200.
\<close>

definition reply :: "int \<Rightarrow> json \<Rightarrow> exn + response" where
  "reply status j = Inr \<lparr>status_code = status, content = [], response_json = Some j\<rparr>"

text \<open>
  A small remote: it holds the tags \<open>tags\<close> and, when \<open>scene_id\<close> is not \<open>None\<close>, one
  scene, whose tag ids are \<open>tag_ids\<close> until a \<^verbatim>\<open>sceneUpdate\<close> replaces them; a created
  tag gets the id \<^verbatim>\<open>"9"\<close>.
\<close>

definition stored_tag_ids :: "json list \<Rightarrow> request list \<Rightarrow> json list" where
  "stored_tag_ids tag_ids hist =
     foldl (\<lambda>cur r. case tag_ids_of r of Inr (JArr ids) \<Rightarrow> ids | _ \<Rightarrow> cur) tag_ids hist"

definition remote0 :: "json list \<Rightarrow> json option \<Rightarrow> json list \<Rightarrow> network" where
  "remote0 tags scene_id tag_ids hist req =
     (let query = py_getitem (req_json req) ''query'' in
      if query = Inr (JStr allTags_query) then
        reply 200 (JObj [(''data'', JObj [(''allTags'', JArr tags)])])
      else if query = Inr (JStr tagCreate_query) then
        reply 200 (JObj [(''data'', JObj [(''tagCreate'', JObj [(''id'', JStr ''9'')])])])
      else if query = Inr (JStr tagDestroy_query) then
        reply 200 (JObj [(''data'', JObj [(''tagDestroy'', JBool True)])])
      else if query = Inr (JStr findScenes_query) then
        reply 200 (JObj [(''data'', JObj [(''findScenes'',
          (case scene_id of
             None \<Rightarrow> JObj [(''count'', JNum 0), (''scenes'', JArr [])]
           | Some i \<Rightarrow>
               JObj [(''count'', JNum 1),
                     (''scenes'', JArr [JObj [(''id'', i),
                        (''tags'', JArr (map (\<lambda>t. JObj [(''id'', t)])
                                          (stored_tag_ids tag_ids hist)))]])]))])])
      else
        reply 200 (JObj [(''data'', JObj [(''sceneUpdate'',
          JObj [(''id'', case scene_id of None \<Rightarrow> JNull | Some i \<Rightarrow> i)])])]))"

text \<open>A remote that answers every request with the same status and JSON body.\<close>

definition remote_const :: "int \<Rightarrow> json \<Rightarrow> network" where
  "remote_const status j hist req = reply status j"

section \<open>Basic facts\<close>

lemmas io_defs = bindIO_def bindE_def ret_def raise_def liftE_def emit_def post_def

lemmas client_defs =
  findTagIdWithName_def createTagWithName_def destroyTag_def findRandomSceneId_def
  updateScene_def callGraphQL_def
  allTags_request_def tagCreate_request_def tagDestroy_request_def findScenes_request_def
  sceneUpdate_request_def

lemmas sample_defs =
  remote0_def remote_const_def reply_def stored_tag_ids_def tag_ids_of_def tag0_def
  input0_def conn0_def

lemma queries_distinct:
  "distinct [allTags_query, tagCreate_query, tagDestroy_query, findScenes_query,
             sceneUpdate_query]"
  by (simp add: allTags_query_def tagCreate_query_def tagDestroy_query_def
      findScenes_query_def sceneUpdate_query_def nl_def tab_def)

lemma queries_neq [simp]:
  "allTags_query \<noteq> tagCreate_query" "allTags_query \<noteq> tagDestroy_query"
  "allTags_query \<noteq> findScenes_query" "allTags_query \<noteq> sceneUpdate_query"
  "tagCreate_query \<noteq> allTags_query" "tagCreate_query \<noteq> tagDestroy_query"
  "tagCreate_query \<noteq> findScenes_query" "tagCreate_query \<noteq> sceneUpdate_query"
  "tagDestroy_query \<noteq> allTags_query" "tagDestroy_query \<noteq> tagCreate_query"
  "tagDestroy_query \<noteq> findScenes_query" "tagDestroy_query \<noteq> sceneUpdate_query"
  "findScenes_query \<noteq> allTags_query" "findScenes_query \<noteq> tagCreate_query"
  "findScenes_query \<noteq> tagDestroy_query" "findScenes_query \<noteq> sceneUpdate_query"
  "sceneUpdate_query \<noteq> allTags_query" "sceneUpdate_query \<noteq> tagCreate_query"
  "sceneUpdate_query \<noteq> tagDestroy_query" "sceneUpdate_query \<noteq> findScenes_query"
  using queries_distinct by auto

lemma posts_of_append [simp]: "posts_of (xs @ ys) = posts_of xs @ posts_of ys"
  by (induction xs rule: posts_of.induct) simp_all

lemma prints_of_append [simp]: "prints_of (xs @ ys) = prints_of xs @ prints_of ys"
  by (induction xs rule: prints_of.induct) simp_all

lemma progress_of_append [simp]: "progress_of (xs @ ys) = progress_of xs @ progress_of ys"
  by (induction xs rule: progress_of.induct) simp_all

subsection \<open>Python's equality and \<^verbatim>\<open>list.remove\<close>\<close>

lemma py_eq_refl [simp]: "py_eq x x"
proof (induction x)
  case (JArr xs)
  then show ?case by (simp add: list.rel_refl_strong)
next
  case (JObj a)
  have "\<And>k v. map_of a k = Some v \<Longrightarrow> py_eq v v"
    using JObj by (auto dest!: map_of_SomeD)
  moreover have "\<And>k. k \<in> fst ` set a \<Longrightarrow> map_of a k \<noteq> None"
    by (simp add: map_of_eq_None_iff)
  ultimately show ?case
    by (auto simp: list_all_iff split: option.splits)
qed simp_all

lemma py_eq_JStr [simp]: "py_eq x (JStr s) \<longleftrightarrow> x = JStr s"
  by (cases x) (auto split: json.splits)

lemma py_remove_absent: "py_remove xs x = Inl e \<longleftrightarrow> e = ValueError \<and> py_count xs x = 0"
  by (induction xs) (auto simp: py_count_def split: sum.splits)

lemma py_remove_present:
  "py_remove xs x = Inr ys \<Longrightarrow>
     py_count xs x = Suc (py_count ys x) \<and>
     filter (\<lambda>e. \<not> py_eq e x) ys = filter (\<lambda>e. \<not> py_eq e x) xs"
  by (induction xs arbitrary: ys) (auto simp: py_count_def split: sum.splits if_splits)

lemma without_first_count: "py_count (without_first xs x) x = py_count xs x - 1"
proof (cases "py_remove xs x")
  case (Inl e)
  then have "py_count xs x = 0" by (simp add: py_remove_absent)
  with Inl show ?thesis by (simp add: without_first_def)
next
  case (Inr ys)
  then show ?thesis by (auto simp: without_first_def dest: py_remove_present)
qed

lemma without_first_others:
  "filter (\<lambda>e. \<not> py_eq e x) (without_first xs x) = filter (\<lambda>e. \<not> py_eq e x) xs"
  by (cases "py_remove xs x") (auto simp: without_first_def dest: py_remove_present)

lemma py_count_append [simp]: "py_count (xs @ ys) x = py_count xs x + py_count ys x"
  by (simp add: py_count_def)

lemma py_count_single [simp]: "py_count [x] x = 1"
  by (simp add: py_count_def)

lemma py_remove_last:
  "py_count xs x = 0 \<Longrightarrow> py_remove (xs @ [x]) x = Inr xs"
  by (induction xs) (auto simp: py_count_def split: if_splits)

lemma without_first_last:
  "py_count xs x = 0 \<Longrightarrow> without_first (xs @ [x]) x = xs"
  by (simp add: without_first_def py_remove_last)

subsection \<open>What each method of the client sends\<close>

lemma callGraphQL_trace:
  "snd (callGraphQL net self query variables w) =
     w @ [Post (graphql_request self query variables)]"
  by (auto simp: callGraphQL_def io_defs
      split: sum.splits option.splits list.splits prod.splits)

lemma bindIO_liftE_trace: "snd (bindIO m (\<lambda>x. liftE (g x)) w) = snd (m w)"
  by (auto simp: io_defs split: prod.splits sum.splits)

lemma bindIO_ret_trace: "snd (bindIO m (\<lambda>x. ret (g x)) w) = snd (m w)"
  by (auto simp: io_defs split: prod.splits sum.splits)

lemma findTagIdWithName_trace:
  "snd (findTagIdWithName net self name w) = w @ [Post (allTags_request self)]"
  by (simp add: findTagIdWithName_def bindIO_liftE_trace callGraphQL_trace
      allTags_request_def)

lemma createTagWithName_trace:
  "snd (createTagWithName net self name w) = w @ [Post (tagCreate_request self name)]"
  by (simp add: createTagWithName_def bindIO_liftE_trace callGraphQL_trace
      tagCreate_request_def)

lemma destroyTag_trace:
  "snd (destroyTag net self ident w) = w @ [Post (tagDestroy_request self ident)]"
  by (simp add: destroyTag_def bindIO_ret_trace callGraphQL_trace tagDestroy_request_def)

lemma updateScene_trace:
  "snd (updateScene net self sceneData w) = w @ [Post (sceneUpdate_request self sceneData)]"
  by (simp add: updateScene_def bindIO_ret_trace callGraphQL_trace sceneUpdate_request_def)

lemma findRandomSceneId_trace:
  "snd (findRandomSceneId net self w) = w @ [Post (findScenes_request self)]"
proof -
  have "snd (bindIO m (\<lambda>x. bindIO (liftE (g x)) (\<lambda>y. if c y then ret JNull else liftE (h x))) w)
          = snd (m w)" for m :: "json io" and g :: "json \<Rightarrow> exn + json" and c h
    by (auto simp: io_defs split: prod.splits sum.splits)
  then show ?thesis
    by (simp add: findRandomSceneId_def callGraphQL_trace findScenes_request_def)
qed

subsection \<open>What \<^verbatim>\<open>addTag\<close> does once the scene is found\<close>

lemma addTag_update:
  assumes "findTagIdWithName net client ''Hawwwwt'' w0 = (Inr found, w1)"
    and "(if found = JNull then createTagWithName net client ''Hawwwwt'' else ret found) w1
           = (Inr tagID, w2)"
    and "findRandomSceneId net client w2 = (Inr scene, w3)"
    and "scene \<noteq> JNull"
    and "scene_tag_ids scene = Inr tagIds"
    and "py_getitem scene ''id'' = Inr sceneId"
  shows "addTag net client w0 =
           updateScene net client
             (JObj [(''id'', sceneId), (''tag_ids'', JArr (without_first tagIds tagID @ [tagID]))])
             (w3 @ [LogInfo [Text ''Adding tag to scene '', Str sceneId]])"
proof -
  have removed:
    "(case py_remove tagIds tagID of
        Inl e \<Rightarrow> if e = ValueError then ret tagIds else raise e
      | Inr removed \<Rightarrow> ret removed) = ret (without_first tagIds tagID)"
  proof (cases "py_remove tagIds tagID")
    case (Inl e)
    then have "e = ValueError" by (simp add: py_remove_absent)
    with Inl show ?thesis by (simp add: without_first_def)
  next
    case (Inr ys)
    then show ?thesis by (simp add: without_first_def)
  qed
  have tags: "bindE (py_getitem scene ''tags'')
                (\<lambda>tags. bindE (py_iter tags) (py_map (\<lambda>t. py_getitem t ''id''))) = Inr tagIds"
    using assms(5) by (simp add: scene_tag_ids_def)
  show ?thesis
    unfolding addTag_def Let_def
    using assms(1-4,6) tags
    by (simp add: bindIO_def liftE_def emit_def removed) (simp add: ret_def)
qed

lemma add_lookups_trace:
  assumes "findTagIdWithName net client ''Hawwwwt'' w0 = (Inr found, w1)"
    and "(if found = JNull then createTagWithName net client ''Hawwwwt'' else ret found) w1
           = (Inr tagID, w2)"
    and "findRandomSceneId net client w2 = (r, w3)"
  shows "w3 = w0 @ Post (allTags_request client) #
                (if found = JNull then [Post (tagCreate_request client ''Hawwwwt'')] else []) @
                [Post (findScenes_request client)]"
proof -
  have "w1 = w0 @ [Post (allTags_request client)]"
    using findTagIdWithName_trace [of net client "''Hawwwwt''" w0] assms(1) by simp
  moreover have "w2 = w1 @ (if found = JNull then [Post (tagCreate_request client ''Hawwwwt'')] else [])"
    using createTagWithName_trace [of net client "''Hawwwwt''" w1] assms(2)
    by (auto simp: ret_def split: if_splits)
  moreover have "w3 = w2 @ [Post (findScenes_request client)]"
    using findRandomSceneId_trace [of net client w2] assms(3) by simp
  ultimately show ?thesis by simp
qed

lemma tag_ids_of_sceneUpdate [simp]:
  "tag_ids_of (sceneUpdate_request client (JObj [(''id'', i), (''tag_ids'', ids)])) = Inr ids"
  by (simp add: tag_ids_of_def sceneUpdate_request_def graphql_request_def bindE_def)

lemma query_of_requests [simp]:
  "py_getitem (req_json (allTags_request c)) ''query'' = Inr (JStr allTags_query)"
  "py_getitem (req_json (tagCreate_request c n)) ''query'' = Inr (JStr tagCreate_query)"
  "py_getitem (req_json (tagDestroy_request c i)) ''query'' = Inr (JStr tagDestroy_query)"
  "py_getitem (req_json (findScenes_request c)) ''query'' = Inr (JStr findScenes_query)"
  "py_getitem (req_json (sceneUpdate_request c d)) ''query'' = Inr (JStr sceneUpdate_query)"
  by (simp_all add: allTags_request_def tagCreate_request_def tagDestroy_request_def
      findScenes_request_def sceneUpdate_request_def graphql_request_def)

subsection \<open>Dispatch and counting\<close>

lemma run_add:
  assumes "mode_of input = Inr modeArg" and "modeArg = JStr [] \<or> modeArg = JStr ''add''"
    and "client_of input = Inr client"
  shows "run net input output w =
           (case addTag net client w of
              (Inl e, w') \<Rightarrow> Some (Inl e, w')
            | (Inr u, w') \<Rightarrow> Some (Inr (py_setitem output ''output'' (JStr ''ok'')), w'))"
  using assms
  by (auto simp: run_def mode_of_def client_of_def py_in_def bindIO_def liftE_def
      split: prod.splits sum.splits)

lemma calls_of_simps [simp]:
  "calls_of q [] = []"
  "calls_of q (r # rs) =
     (if py_getitem (req_json r) ''query'' = Inr (JStr q) then r # calls_of q rs
      else calls_of q rs)"
  "calls_of q (rs @ rs') = calls_of q rs @ calls_of q rs'"
  by (simp_all add: calls_of_def)

lemma mutations_of_simps [simp]:
  "mutations_of [] = []"
  "mutations_of (r # rs) =
     (if py_getitem (req_json r) ''query'' = Inr (JStr tagCreate_query) \<or>
         py_getitem (req_json r) ''query'' = Inr (JStr tagDestroy_query) \<or>
         py_getitem (req_json r) ''query'' = Inr (JStr sceneUpdate_query)
      then r # mutations_of rs else mutations_of rs)"
  "mutations_of (rs @ rs') = mutations_of rs @ mutations_of rs'"
  by (simp_all add: mutations_of_def)

lemmas plugin_defs =
  run_def mode_of_def client_of_def py_in_def StashInterface_def addTag_def removeTag_def
  main_def main_input_def readJSONInput_def scene_tag_ids_def without_first_def Let_def

lemmas eval_defs = plugin_defs client_defs sample_defs io_defs graphql_request_def client0_def

lemma main_input_trace:
  assumes "main_input argv stdin [] = (r, w0)"
  shows "posts_of w0 = [] \<and> prints_of w0 = [] \<and> progress_of w0 = []"
  using assms
  by (auto simp: main_input_def readJSONInput_def io_defs Let_def
      split: if_splits option.splits)

lemma run_remove:
  assumes "mode_of input = Inr (JStr ''remove'')" and "client_of input = Inr client"
  shows "run net input output w =
           (case removeTag net client w of
              (Inl e, w') \<Rightarrow> Some (Inl e, w')
            | (Inr u, w') \<Rightarrow> Some (Inr (py_setitem output ''output'' (JStr ''ok'')), w'))"
  using assms
  by (auto simp: run_def mode_of_def client_of_def py_in_def bindIO_def liftE_def
      split: prod.splits sum.splits)

lemma findTagIdWithName_next_none:
  "list_all (\<lambda>t. case py_getitem t ''name'' of Inl e \<Rightarrow> False | Inr n \<Rightarrow> n \<noteq> JStr name) tags
     \<Longrightarrow> findTagIdWithName_next name tags = Inr JNull"
  by (induction tags) (auto split: sum.splits)

subsection \<open>The long task\<close>

lemma doLongTask_for_trace:
  "doLongTask_for steps total_steps w =
     w @ concat (map (\<lambda>upTo. [Sleep 1, LogProgress (rat_of_nat upTo / rat_of_nat total_steps)])
                  steps)"
  by (induction steps arbitrary: w) simp_all

lemma progress_of_steps:
  "progress_of (concat (map (\<lambda>upTo. [Sleep n, LogProgress (f upTo)]) steps)) = map f steps"
  by (induction steps) simp_all

lemma prints_of_steps:
  "prints_of (concat (map (\<lambda>upTo. [Sleep n, LogProgress (f upTo)]) steps)) = []"
  by (induction steps) simp_all

lemma run_long:
  assumes "mode_of input = Inr (JStr ''long'')"
  shows "run net input output w =
           Some (Inr (py_setitem output ''output'' (JStr ''ok'')),
                 w @ LogInfo [Text ''Doing long task''] #
                     concat (map (\<lambda>upTo. [Sleep 1, LogProgress (rat_of_nat upTo / 100)])
                               [0..<100]))"
  using assms
  by (auto simp: run_def mode_of_def py_in_def doLongTask_def Let_def bindIO_def emit_def
      doLongTask_for_trace split: sum.splits)

lemma main_long:
  assumes "main_input argv stdin [] = (Inr input, w0)"
    and "mode_of input = Inr (JStr ''long'')"
  shows "main net argv stdin =
           Some (Inr (),
                 w0 @ LogInfo [Text ''Doing long task''] #
                   concat (map (\<lambda>upTo. [Sleep 1, LogProgress (rat_of_nat upTo / 100)])
                             [0..<100]) @
                   [Print [Dumps (JObj [(''output'', JStr ''ok'')]), Text nl]])"
  using assms(1) by (simp add: main_def run_long [OF assms(2)] emit_def)

subsection \<open>What is printed, and the task that never ends\<close>

lemma doIndefiniteTask_while_never: "doIndefiniteTask_while w \<noteq> Some y"
proof
  assume returns: "doIndefiniteTask_while w = Some y"
  show False
  proof (rule doIndefiniteTask_while.raw_induct [where P = "\<lambda>w y. False", OF _ returns])
    fix f :: "event list \<Rightarrow> ((exn + unit) \<times> event list) option" and v z
    assume "\<And>x y. f x = Some y \<Longrightarrow> False" and "f (v @ [Sleep 1]) = Some z"
    then show False by blast
  qed
qed

lemma doIndefiniteTask_never_returns: "doIndefiniteTask w = None"
  using doIndefiniteTask_while_never [of "w @ [LogWarning [Text ''Sleeping indefinitely'']]"]
  by (cases "doIndefiniteTask w") (auto simp: doIndefiniteTask_def)

lemma silentD: "silent m \<Longrightarrow> m w = (x, v) \<Longrightarrow> prints_of v = prints_of w"
  unfolding silent_def by (metis snd_conv)

lemma silent_bindIO:
  assumes "silent m" and "\<And>x. silent (f x)"
  shows "silent (bindIO m f)"
  unfolding silent_def
proof
  fix w
  show "prints_of (snd (bindIO m f w)) = prints_of w"
  proof (cases "m w")
    case (Pair r w')
    then have "prints_of w' = prints_of w"
      using assms(1) by (rule silentD [rotated])
    with Pair assms(2) show ?thesis
      by (cases r) (simp_all add: bindIO_def silent_def)
  qed
qed

lemma silent_leaves:
  "silent (ret x)" "silent (raise e)" "silent (liftE c)"
  "silent (emit (LogInfo p))" "silent (emit (LogDebug p))"
  by (simp_all add: silent_def io_defs)

lemma silent_if: "silent a \<Longrightarrow> silent b \<Longrightarrow> silent (if c then a else b)"
  by simp

lemma silent_case_sum:
  "(\<And>e. silent (f e)) \<Longrightarrow> (\<And>x. silent (g x)) \<Longrightarrow>
     silent (case s of Inl e \<Rightarrow> f e | Inr x \<Rightarrow> g x)"
  by (cases s) simp_all

lemma silent_client:
  "silent (findTagIdWithName net self name)" "silent (createTagWithName net self name)"
  "silent (destroyTag net self ident)" "silent (findRandomSceneId net self)"
  "silent (updateScene net self sceneData)"
  by (simp_all add: silent_def findTagIdWithName_trace createTagWithName_trace
      destroyTag_trace findRandomSceneId_trace updateScene_trace)

lemmas silent_intros =
  silent_bindIO silent_if silent_case_sum silent_leaves silent_client

lemma addTag_silent: "silent (addTag net client)"
  unfolding addTag_def Let_def by (intro silent_intros)

lemma removeTag_silent: "silent (removeTag net client)"
  unfolding removeTag_def Let_def by (intro silent_intros)

lemma doLongTask_silent: "silent doLongTask"
  by (simp add: silent_def doLongTask_def Let_def bindIO_def emit_def doLongTask_for_trace
      prints_of_steps)

lemma run_prints:
  assumes "run net input output w = Some (r, w')"
  shows "prints_of w' = prints_of w"
proof (cases "mode_of input")
  case (Inl e)
  with assms show ?thesis by (simp add: run_def mode_of_def)
next
  case (Inr modeArg)
  have eq: "bindE (py_getitem input ''args'') (\<lambda>args. py_getitem args ''mode'') = Inr modeArg"
    using Inr by (simp add: mode_of_def)
  let ?client = "liftE (bindE (py_getitem input ''server_connection'') StashInterface)"
  have a: "silent (bindIO ?client (addTag net))"
    by (intro silent_bindIO silent_leaves addTag_silent)
  have b: "silent (bindIO ?client (removeTag net))"
    by (intro silent_bindIO silent_leaves removeTag_silent)
  consider (add) "py_in modeArg [JStr [], JStr ''add'']"
    | (remove) "\<not> py_in modeArg [JStr [], JStr ''add'']" "py_eq modeArg (JStr ''remove'')"
    | (long) "\<not> py_in modeArg [JStr [], JStr ''add'']" "\<not> py_eq modeArg (JStr ''remove'')"
        "py_eq modeArg (JStr ''long'')"
    | (indef) "\<not> py_in modeArg [JStr [], JStr ''add'']" "\<not> py_eq modeArg (JStr ''remove'')"
        "\<not> py_eq modeArg (JStr ''long'')" "py_eq modeArg (JStr ''indef'')"
    | (other) "\<not> py_in modeArg [JStr [], JStr ''add'']" "\<not> py_eq modeArg (JStr ''remove'')"
        "\<not> py_eq modeArg (JStr ''long'')" "\<not> py_eq modeArg (JStr ''indef'')"
    by blast
  then show ?thesis
  proof cases
    case add
    obtain x v where res: "bindIO ?client (addTag net) w = (x, v)"
      by (cases "bindIO ?client (addTag net) w")
    with assms add have "w' = v"
      unfolding run_def eq by (cases x) simp_all
    with silentD [OF a res] show ?thesis by simp
  next
    case remove
    obtain x v where res: "bindIO ?client (removeTag net) w = (x, v)"
      by (cases "bindIO ?client (removeTag net) w")
    with assms remove have "w' = v"
      unfolding run_def eq by (cases x) simp_all
    with silentD [OF b res] show ?thesis by simp
  next
    case long
    obtain x v where res: "doLongTask w = (x, v)"
      by (cases "doLongTask w")
    with assms long have "w' = v"
      unfolding run_def eq by (cases x) simp_all
    with silentD [OF doLongTask_silent res] show ?thesis by simp
  next
    case indef
    with assms show ?thesis
      unfolding run_def eq by (simp add: doIndefiniteTask_never_returns)
  next
    case other
    with assms show ?thesis
      unfolding run_def eq by simp
  qed
qed

subsection \<open>The premises of the claims, read on the remote's answers\<close>

text \<open>
  The claims below speak of a tag lookup that finds no tag and of an invocation that
  reaches \<^verbatim>\<open>updateScene\<close>. The first holds when the remote answers the tag query with
  tags none of which has the name; the second holds only when each step of \<^verbatim>\<open>addTag\<close>
  before \<^verbatim>\<open>updateScene\<close> has returned.
\<close>

lemma callGraphQL_data:
  assumes "net (posts_of w) (graphql_request self query variables) = Inr resp"
    and "status_code resp = 200"
    and "response_json resp = Some result"
    and "py_get result ''error'' = Inr err" and "\<not> py_truthy err"
    and "py_get result ''data'' = Inr data" and "py_truthy data"
  shows "callGraphQL net self query variables w =
           (Inr data, w @ [Post (graphql_request self query variables)])"
  using assms by (simp add: callGraphQL_def io_defs)

lemma findTagIdWithName_no_match:
  assumes "net (posts_of w) (allTags_request self) = Inr resp"
    and "status_code resp = 200"
    and "response_json resp = Some result"
    and "py_get result ''error'' = Inr err" and "\<not> py_truthy err"
    and "py_get result ''data'' = Inr data" and "py_truthy data"
    and "py_getitem data ''allTags'' = Inr (JArr tags)"
    and "list_all (\<lambda>t. case py_getitem t ''name'' of Inl e \<Rightarrow> False | Inr n \<Rightarrow> n \<noteq> JStr name)
           tags"
  shows "findTagIdWithName net self name w = (Inr JNull, w @ [Post (allTags_request self)])"
proof -
  have "callGraphQL net self allTags_query JNull w =
          (Inr data, w @ [Post (graphql_request self allTags_query JNull)])"
    using assms(1-7) unfolding allTags_request_def by (rule callGraphQL_data)
  then show ?thesis
    using assms(8) findTagIdWithName_next_none [OF assms(9)]
    by (simp add: findTagIdWithName_def bindIO_def liftE_def bindE_def allTags_request_def)
qed

lemma addTag_reaches_update:
  assumes "calls_of sceneUpdate_query (posts_of (snd (addTag net client w0)))
             \<noteq> calls_of sceneUpdate_query (posts_of w0)"
  shows "\<exists>found w1 tagID w2 scene w3 tagIds sceneId.
           findTagIdWithName net client ''Hawwwwt'' w0 = (Inr found, w1) \<and>
           (if found = JNull then createTagWithName net client ''Hawwwwt'' else ret found) w1
             = (Inr tagID, w2) \<and>
           findRandomSceneId net client w2 = (Inr scene, w3) \<and>
           scene \<noteq> JNull \<and>
           scene_tag_ids scene = Inr tagIds \<and>
           py_getitem scene ''id'' = Inr sceneId"
proof -
  obtain r1 w1 where 1: "findTagIdWithName net client ''Hawwwwt'' w0 = (r1, w1)"
    by (cases "findTagIdWithName net client ''Hawwwwt'' w0")
  have w1: "w1 = w0 @ [Post (allTags_request client)]"
    using findTagIdWithName_trace [of net client "''Hawwwwt''" w0] 1 by simp
  show ?thesis
  proof (cases r1)
    case (Inl e)
    with 1 have "snd (addTag net client w0) = w1"
      by (simp add: addTag_def Let_def bindIO_def)
    with assms w1 show ?thesis by simp
  next
    case found: (Inr found)
    obtain r2 w2 where 2:
      "(if found = JNull then createTagWithName net client ''Hawwwwt'' else ret found) w1
         = (r2, w2)"
      by (cases "(if found = JNull then createTagWithName net client ''Hawwwwt''
                  else ret found) w1")
    have w2: "w2 = w1 @ (if found = JNull then [Post (tagCreate_request client ''Hawwwwt'')]
                         else [])"
      using createTagWithName_trace [of net client "''Hawwwwt''" w1] 2
      by (auto simp: ret_def split: if_splits)
    show ?thesis
    proof (cases r2)
      case (Inl e)
      with 1 found 2 have "snd (addTag net client w0) = w2"
        by (simp add: addTag_def Let_def bindIO_def)
      moreover have "calls_of sceneUpdate_query (posts_of w2)
                       = calls_of sceneUpdate_query (posts_of w0)"
        by (simp add: w1 w2)
      ultimately show ?thesis using assms by simp
    next
      case tagID: (Inr tagID)
      obtain r3 w3 where 3: "findRandomSceneId net client w2 = (r3, w3)"
        by (cases "findRandomSceneId net client w2")
      have w3: "w3 = w2 @ [Post (findScenes_request client)]"
        using findRandomSceneId_trace [of net client w2] 3 by simp
      have quiet: "calls_of sceneUpdate_query (posts_of w3)
                     = calls_of sceneUpdate_query (posts_of w0)"
        by (simp add: w1 w2 w3)
      show ?thesis
      proof (cases r3)
        case (Inl e)
        with 1 found 2 tagID 3 have "snd (addTag net client w0) = w3"
          by (simp add: addTag_def Let_def bindIO_def)
        with assms quiet show ?thesis by simp
      next
        case scene: (Inr scene)
        have rest: "scene \<noteq> JNull \<and> (\<exists>tagIds. scene_tag_ids scene = Inr tagIds) \<and>
                    (\<exists>sceneId. py_getitem scene ''id'' = Inr sceneId)"
        proof (rule ccontr)
          assume "\<not> ?thesis"
          then have "snd (addTag net client w0) = w3"
            using 1 found 2 tagID 3 scene
            by (cases "scene_tag_ids scene"; cases "py_getitem scene ''id''")
               (auto simp: addTag_def Let_def bindIO_def raise_def liftE_def ret_def
                  scene_tag_ids_def split: sum.splits)
          with assms quiet show False by simp
        qed
        with 1 found 2 tagID 3 scene show ?thesis by blast
      qed
    qed
  qed
qed

subsection \<open>The errors the client reads\<close>


text \<open>
  A body with status 200 whose errors stand in a top-level \<^verbatim>\<open>errors\<close> member, the reply
  of a GraphQL service to a failed request, is not one the client reads errors in: it
  returns \<^verbatim>\<open>data\<close>.
\<close>

lemma callGraphQL_top_level_errors:
  "callGraphQL
     (remote_const 200
        (JObj [(''errors'', JArr [JObj [(''message'', JStr ''boom'')]]),
               (''data'', JObj [(''allTags'', JArr [])])]))
     client0 allTags_query JNull []
   = (Inr (JObj [(''allTags'', JArr [])]),
      [Post (graphql_request client0 allTags_query JNull)])"
  by (simp add: callGraphQL_def io_defs remote_const_def reply_def)

subsection \<open>Removing a tag that is not there\<close>

text \<open>
  When the client is built and the tag lookup finds no tag of the fixed name, the only
  request of the process is the tag query, and it ends normally after printing the output
  \<^verbatim>\<open>{"output": "ok"}\<close>.
\<close>

lemma remove_absent_tag_noop:
  assumes "main_input argv stdin [] = (Inr input, w0)"
    and "mode_of input = Inr (JStr ''remove'')"
    and "client_of input = Inr client"
    and "findTagIdWithName net client ''Hawwwwt'' w0 = (Inr JNull, w1)"
  shows "main net argv stdin =
           Some (Inr (),
                 w0 @ [Post (allTags_request client),
                       LogInfo [Text ''Tag does not exist. Nothing to remove''],
                       Print [Dumps (JObj [(''output'', JStr ''ok'')]), Text nl]]) \<and>
         posts_of (w0 @ [Post (allTags_request client),
                       LogInfo [Text ''Tag does not exist. Nothing to remove''],
                       Print [Dumps (JObj [(''output'', JStr ''ok'')]), Text nl]])
           = [allTags_request client] \<and>
         mutations_of [allTags_request client] = []"
proof -
  have w1: "w1 = w0 @ [Post (allTags_request client)]"
    using findTagIdWithName_trace [of net client "''Hawwwwt''" w0] assms(4) by simp
  have "removeTag net client w0 =
          (Inr (), w1 @ [LogInfo [Text ''Tag does not exist. Nothing to remove'']])"
    using assms(4) by (simp add: removeTag_def bindIO_def emit_def)
  then have "run net input [] w0 =
          Some (Inr [(''output'', JStr ''ok'')],
                w1 @ [LogInfo [Text ''Tag does not exist. Nothing to remove'']])"
    by (simp add: run_remove [OF assms(2,3)])
  then have "main net argv stdin =
           Some (Inr (),
                 w1 @ [LogInfo [Text ''Tag does not exist. Nothing to remove''],
                       Print [Dumps (JObj [(''output'', JStr ''ok'')]), Text nl]])"
    using assms(1) by (simp add: main_def emit_def)
  moreover have "posts_of w0 = []"
    using main_input_trace [OF assms(1)] by simp
  ultimately show ?thesis
    by (simp add: w1)
qed

lemma remove_absent_tag_noop_example:
  "main (remote0 [JObj [(''id'', JStr ''3''), (''name'', JStr ''Other'')]] None [])
        [''pyplugin.py''] (Some (input0 ''remove''))
     = Some (Inr (),
             [LogDebug [Text ''Raw input: '', Dumps (input0 ''remove'')],
              Post (allTags_request client0),
              LogInfo [Text ''Tag does not exist. Nothing to remove''],
              Print [Dumps (JObj [(''output'', JStr ''ok'')]), Text nl]]) \<and>
   mutations_of [allTags_request client0] = []"
proof -
  let ?net = "remote0 [JObj [(''id'', JStr ''3''), (''name'', JStr ''Other'')]] None []"
  let ?w0 = "[LogDebug [Text ''Raw input: '', Dumps (input0 ''remove'')]]"
  have i: "main_input [''pyplugin.py''] (Some (input0 ''remove'')) []
             = (Inr (input0 ''remove''), ?w0)"
    by (simp add: main_input_def readJSONInput_def io_defs)
  have m: "mode_of (input0 ''remove'') = Inr (JStr ''remove'')"
    by (simp add: mode_of_def input0_def bindE_def)
  have c: "client_of (input0 ''remove'') = Inr client0"
    by (simp add: client_of_def input0_def conn0_def StashInterface_def client0_def bindE_def)
  have 1: "findTagIdWithName ?net client0 ''Hawwwwt'' ?w0
             = (Inr JNull, ?w0 @ [Post (allTags_request client0)])"
    by (simp add: client_defs sample_defs io_defs graphql_request_def)
  show ?thesis
    using remove_absent_tag_noop [OF i m c 1] by simp
qed

section \<open>The claims\<close>

text \<open>
  C1, as the code has it. For every invocation with mode \<^verbatim>\<open>""\<close> or \<^verbatim>\<open>"add"\<close> in which the
  client is built, the tag is found or created with id \<open>tagID\<close>, and the scene lookup
  returns a scene whose tag ids \<open>tagIds\<close> and whose id can be read: the requests of the
  invocation are the tag query, the tag creation when no tag was found, the scene query
  and one \<^verbatim>\<open>sceneUpdate\<close>, whatever the scene's tag ids are. The tag ids it carries hold
  \<open>tagID\<close> once when the scene's tag ids held it at most once (whether it was there or
  not), and as often as the scene's did otherwise: the code removes only the first
  occurrence before it appends.
\<close>

theorem add_updates_scene_once:
  assumes "mode_of input = Inr modeArg" and "modeArg = JStr [] \<or> modeArg = JStr ''add''"
    and "client_of input = Inr client"
    and "findTagIdWithName net client ''Hawwwwt'' w0 = (Inr found, w1)"
    and "(if found = JNull then createTagWithName net client ''Hawwwwt'' else ret found) w1
           = (Inr tagID, w2)"
    and "findRandomSceneId net client w2 = (Inr scene, w3)"
    and "scene \<noteq> JNull"
    and "scene_tag_ids scene = Inr tagIds"
    and "py_getitem scene ''id'' = Inr sceneId"
  shows "let ids = without_first tagIds tagID @ [tagID];
             update = sceneUpdate_request client
                        (JObj [(''id'', sceneId), (''tag_ids'', JArr ids)]);
             new = allTags_request client #
                   (if found = JNull then [tagCreate_request client ''Hawwwwt''] else []) @
                   [findScenes_request client, update];
             w' = w3 @ [LogInfo [Text ''Adding tag to scene '', Str sceneId], Post update]
         in (\<exists>r. run net input output w0 = Some (r, w')) \<and>
            posts_of w' = posts_of w0 @ new \<and>
            calls_of sceneUpdate_query new = [update] \<and>
            py_count ids tagID = max 1 (py_count tagIds tagID) \<and>
            (py_count tagIds tagID \<le> 1 \<longrightarrow> py_count ids tagID = 1)"
proof -
  let ?ids = "without_first tagIds tagID @ [tagID]"
  let ?data = "JObj [(''id'', sceneId), (''tag_ids'', JArr ?ids)]"
  let ?w = "w3 @ [LogInfo [Text ''Adding tag to scene '', Str sceneId]]"
  have add: "addTag net client w0 = updateScene net client ?data ?w"
    by (rule addTag_update [OF assms(4-9)])
  have "snd (updateScene net client ?data ?w) = ?w @ [Post (sceneUpdate_request client ?data)]"
    by (rule updateScene_trace)
  then obtain r where "addTag net client w0 = (r, ?w @ [Post (sceneUpdate_request client ?data)])"
    using add by (metis prod.collapse)
  then have "\<exists>r. run net input output w0
                 = Some (r, ?w @ [Post (sceneUpdate_request client ?data)])"
    by (cases r) (simp_all add: run_add [OF assms(1-3)])
  moreover have "w3 = w0 @ Post (allTags_request client) #
                (if found = JNull then [Post (tagCreate_request client ''Hawwwwt'')] else []) @
                [Post (findScenes_request client)]"
    by (rule add_lookups_trace [OF assms(4-6)])
  moreover have "py_count ?ids tagID = max 1 (py_count tagIds tagID)"
    by (simp add: without_first_count)
  ultimately show ?thesis
    by (simp add: Let_def)
qed

theorem add_updates_scene_once_witness:
  "run (remote0 [tag0] (Some (JStr ''5'')) [JStr ''7'', JStr ''9'', JStr ''8''])
       (input0 [])  [] []
     = Some (Inr [(''output'', JStr ''ok'')],
             [Post (allTags_request client0), Post (findScenes_request client0),
              LogInfo [Text ''Adding tag to scene '', Str (JStr ''5'')],
              Post (sceneUpdate_request client0
                      (JObj [(''id'', JStr ''5''),
                             (''tag_ids'', JArr [JStr ''7'', JStr ''8'', JStr ''9''])]))]) \<and>
   calls_of sceneUpdate_query
     [allTags_request client0, findScenes_request client0,
      sceneUpdate_request client0
        (JObj [(''id'', JStr ''5''), (''tag_ids'', JArr [JStr ''7'', JStr ''8'', JStr ''9''])])]
     = [sceneUpdate_request client0
          (JObj [(''id'', JStr ''5''), (''tag_ids'', JArr [JStr ''7'', JStr ''8'', JStr ''9''])])] \<and>
   py_count [JStr ''7'', JStr ''8'', JStr ''9''] (JStr ''9'') = 1"
proof -
  let ?net = "remote0 [tag0] (Some (JStr ''5'')) [JStr ''7'', JStr ''9'', JStr ''8'']"
  let ?scene = "JObj [(''id'', JStr ''5''),
               (''tags'', JArr [JObj [(''id'', JStr ''7'')], JObj [(''id'', JStr ''9'')],
                               JObj [(''id'', JStr ''8'')]])]"
  have m: "mode_of (input0 []) = Inr (JStr [])"
    by (simp add: mode_of_def input0_def bindE_def)
  have m': "JStr [] = JStr [] \<or> JStr [] = JStr ''add''" by simp
  have c: "client_of (input0 []) = Inr client0"
    by (simp add: client_of_def input0_def conn0_def StashInterface_def client0_def bindE_def)
  have 1: "findTagIdWithName ?net client0 ''Hawwwwt'' []
             = (Inr (JStr ''9''), [Post (allTags_request client0)])"
    by (simp add: client_defs sample_defs io_defs graphql_request_def)
  have 2: "(if JStr ''9'' = JNull then createTagWithName ?net client0 ''Hawwwwt''
            else ret (JStr ''9'')) [Post (allTags_request client0)]
             = (Inr (JStr ''9''), [Post (allTags_request client0)])"
    by (simp add: ret_def)
  have 3: "findRandomSceneId ?net client0 [Post (allTags_request client0)]
             = (Inr ?scene, [Post (allTags_request client0), Post (findScenes_request client0)])"
    by (simp add: client_defs sample_defs io_defs graphql_request_def)
  have 4: "?scene \<noteq> JNull" by simp
  have 5: "scene_tag_ids ?scene = Inr [JStr ''7'', JStr ''9'', JStr ''8'']"
    by (simp add: scene_tag_ids_def bindE_def)
  have 6: "py_getitem ?scene ''id'' = Inr (JStr ''5'')" by simp
  have 7: "py_count [JStr ''7'', JStr ''9'', JStr ''8''] (JStr ''9'') \<le> 1"
    by (simp add: py_count_def)
  have r: "run ?net (input0 []) [] []
     = Some (Inr [(''output'', JStr ''ok'')],
             [Post (allTags_request client0), Post (findScenes_request client0),
              LogInfo [Text ''Adding tag to scene '', Str (JStr ''5'')],
              Post (sceneUpdate_request client0
                      (JObj [(''id'', JStr ''5''),
                             (''tag_ids'', JArr [JStr ''7'', JStr ''8'', JStr ''9''])]))])"
    by (simp add: eval_defs)
  show ?thesis
    using add_updates_scene_once [OF m m' c 1 2 3 4 5 6, of "[]"] 7 r
    by (simp add: without_first_def Let_def)
qed

text \<open>
  The claim as stated fails on a scene whose tag list holds the tag's id twice: the id is
  sent twice.
\<close>

theorem add_updates_scene_once_counterexample:
  "mode_of (input0 ''add'') = Inr (JStr ''add'') \<and>
   run (remote0 [tag0] (Some (JStr ''5'')) [JStr ''9'', JStr ''9'']) (input0 ''add'') [] []
     = Some (Inr [(''output'', JStr ''ok'')],
             [Post (allTags_request client0), Post (findScenes_request client0),
              LogInfo [Text ''Adding tag to scene '', Str (JStr ''5'')],
              Post (sceneUpdate_request client0
                      (JObj [(''id'', JStr ''5''),
                             (''tag_ids'', JArr [JStr ''9'', JStr ''9''])]))]) \<and>
   py_count [JStr ''9'', JStr ''9''] (JStr ''9'') = 2"
  by (simp add: eval_defs py_count_def)




text \<open>
  C3. The claim asks that a failing invocation still prints one output with its
  \<^verbatim>\<open>error\<close> member set. The code does the opposite: whenever the process ends with an
  exception (raised while the input is read, or by the dispatched operation and re-raised
  by \<^verbatim>\<open>run\<close>), nothing at all has been printed on standard output.
\<close>

theorem failure_prints_nothing:
  assumes "main net argv stdin = Some (Inl e, w)"
  shows "prints_of w = []"
proof (cases "main_input argv stdin []")
  case (Pair r w0)
  have w0: "prints_of w0 = []"
    using main_input_trace [OF Pair] by simp
  show ?thesis
  proof (cases r)
    case (Inl e')
    with assms Pair w0 show ?thesis by (simp add: main_def)
  next
    case (Inr input)
    show ?thesis
    proof (cases "run net input [] w0")
      case None
      with assms Pair Inr show ?thesis by (simp add: main_def)
    next
      case (Some res)
      obtain r' w' where res: "res = (r', w')" by (cases res)
      have "prints_of w' = []"
        using run_prints [of net input "[]" w0 r' w'] Some res w0 by simp
      with assms Pair Inr Some res show ?thesis
        by (cases r') (simp_all add: main_def emit_def)
    qed
  qed
qed

theorem failure_prints_nothing_witness:
  "main (remote_const 500 JNull) [''pyplugin.py''] (Some (input0 ''add''))
     = Some (Inl (Exception
                   [Text ''GraphQL query failed:'', Str (JNum 500),
                    Text '' - '', Bytes [],
                    Text ''. Query: '', Text allTags_query,
                    Text ''. Variables: '', Str JNull]),
             [LogDebug [Text ''Raw input: '', Dumps (input0 ''add'')],
              Post (allTags_request client0)]) \<and>
   prints_of [LogDebug [Text ''Raw input: '', Dumps (input0 ''add'')],
              Post (allTags_request client0)] = []"
proof -
  have m: "main (remote_const 500 JNull) [''pyplugin.py''] (Some (input0 ''add''))
     = Some (Inl (Exception
                   [Text ''GraphQL query failed:'', Str (JNum 500),
                    Text '' - '', Bytes [],
                    Text ''. Query: '', Text allTags_query,
                    Text ''. Variables: '', Str JNull]),
             [LogDebug [Text ''Raw input: '', Dumps (input0 ''add'')],
              Post (allTags_request client0)])"
    by (simp add: eval_defs)
  show ?thesis
    using failure_prints_nothing [OF m] m by simp
qed

text \<open>
  C4, as the code has it. For every invocation with mode \<^verbatim>\<open>"add"\<close> in which the scene
  lookup returns no scene, the operation fails with
  \<^verbatim>\<open>Exception("no scenes to add tag to")\<close>, and no \<^verbatim>\<open>sceneUpdate\<close> or \<^verbatim>\<open>tagDestroy\<close> is
  sent; \<^verbatim>\<open>tagCreate\<close> is sent once, before the scene lookup, exactly when no tag of the
  fixed name was found.
\<close>

theorem add_without_scene:
  assumes "mode_of input = Inr (JStr ''add'')"
    and "client_of input = Inr client"
    and "findTagIdWithName net client ''Hawwwwt'' w0 = (Inr found, w1)"
    and "(if found = JNull then createTagWithName net client ''Hawwwwt'' else ret found) w1
           = (Inr tagID, w2)"
    and "findRandomSceneId net client w2 = (Inr JNull, w3)"
  shows "let new = allTags_request client #
                   (if found = JNull then [tagCreate_request client ''Hawwwwt''] else []) @
                   [findScenes_request client]
         in run net input output w0
              = Some (Inl (Exception [Text ''no scenes to add tag to'']), w3) \<and>
            posts_of w3 = posts_of w0 @ new \<and>
            mutations_of new =
              (if found = JNull then [tagCreate_request client ''Hawwwwt''] else [])"
proof -
  have "addTag net client w0 = (Inl (Exception [Text ''no scenes to add tag to'']), w3)"
    unfolding addTag_def Let_def using assms(3-5)
    by (simp add: bindIO_def raise_def)
  then have "run net input output w0
               = Some (Inl (Exception [Text ''no scenes to add tag to'']), w3)"
    by (simp add: run_add [OF assms(1) _ assms(2)])
  moreover have "w3 = w0 @ Post (allTags_request client) #
                (if found = JNull then [Post (tagCreate_request client ''Hawwwwt'')] else []) @
                [Post (findScenes_request client)]"
    by (rule add_lookups_trace [OF assms(3-5)])
  ultimately show ?thesis
    by (simp add: Let_def)
qed

theorem add_without_scene_witness:
  "run (remote0 [tag0] None []) (input0 ''add'') [] []
     = Some (Inl (Exception [Text ''no scenes to add tag to'']),
             [Post (allTags_request client0), Post (findScenes_request client0)]) \<and>
   mutations_of [allTags_request client0, findScenes_request client0] = []"
proof -
  let ?net = "remote0 [tag0] None []"
  have m: "mode_of (input0 ''add'') = Inr (JStr ''add'')"
    by (simp add: mode_of_def input0_def bindE_def)
  have c: "client_of (input0 ''add'') = Inr client0"
    by (simp add: client_of_def input0_def conn0_def StashInterface_def client0_def bindE_def)
  have 1: "findTagIdWithName ?net client0 ''Hawwwwt'' []
             = (Inr (JStr ''9''), [Post (allTags_request client0)])"
    by (simp add: client_defs sample_defs io_defs graphql_request_def)
  have 2: "(if JStr ''9'' = JNull then createTagWithName ?net client0 ''Hawwwwt''
            else ret (JStr ''9'')) [Post (allTags_request client0)]
             = (Inr (JStr ''9''), [Post (allTags_request client0)])"
    by (simp add: ret_def)
  have 3: "findRandomSceneId ?net client0 [Post (allTags_request client0)]
             = (Inr JNull, [Post (allTags_request client0), Post (findScenes_request client0)])"
    by (simp add: client_defs sample_defs io_defs graphql_request_def)
  show ?thesis
    using add_without_scene [OF m c 1 2 3, of "[]"]
    by (simp add: Let_def)
qed

text \<open>
  The claim as stated fails when the remote has neither the tag nor a scene: the tag is
  created before the scene lookup fails.
\<close>

theorem add_without_scene_counterexample:
  "mode_of (input0 ''add'') = Inr (JStr ''add'') \<and>
   run (remote0 [] None []) (input0 ''add'') [] []
     = Some (Inl (Exception [Text ''no scenes to add tag to'']),
             [Post (allTags_request client0), Post (tagCreate_request client0 ''Hawwwwt''),
              Post (findScenes_request client0)]) \<and>
   mutations_of [allTags_request client0, tagCreate_request client0 ''Hawwwwt'',
                 findScenes_request client0]
     = [tagCreate_request client0 ''Hawwwwt'']"
  by (simp add: eval_defs)

text \<open>
  C5, as the code has it. For every invocation with mode \<^verbatim>\<open>"long"\<close>, the process pauses
  100 times and reports a progress after each pause, all before it prints its output: the
  reports are \<open>upTo / 100\<close> for \<open>upTo\<close> from 0 to 99 in this order, so there are exactly 100
  of them, strictly increasing, from 0.00 up to 0.99.
\<close>

theorem long_task_progress:
  assumes "main_input argv stdin [] = (Inr input, w0)"
    and "mode_of input = Inr (JStr ''long'')"
  shows "main net argv stdin =
           Some (Inr (),
                 w0 @ LogInfo [Text ''Doing long task''] #
                   concat (map (\<lambda>upTo. [Sleep 1, LogProgress (rat_of_nat upTo / 100)])
                             [0..<100]) @
                   [Print [Dumps (JObj [(''output'', JStr ''ok'')]), Text nl]]) \<and>
         progress_reports (main net argv stdin) = map (\<lambda>upTo. rat_of_nat upTo / 100) [0..<100] \<and>
         length (progress_reports (main net argv stdin)) = 100 \<and>
         sorted_wrt (<) (progress_reports (main net argv stdin)) \<and>
         hd (progress_reports (main net argv stdin)) = 0 \<and>
         last (progress_reports (main net argv stdin)) = 99 / 100"
proof -
  have p: "progress_reports (main net argv stdin) = map (\<lambda>upTo. rat_of_nat upTo / 100) [0..<100]"
    using main_input_trace [OF assms(1)]
    by (simp add: main_long [OF assms] progress_reports_def progress_of_steps)
  have s: "sorted_wrt (<) (map (\<lambda>upTo. rat_of_nat upTo / 100) [0..<100])"
    by (simp add: sorted_wrt_map sorted_wrt_mono_rel [OF _ sorted_wrt_upt] divide_strict_right_mono)
  have h: "hd (map (\<lambda>upTo. rat_of_nat upTo / 100) [0..<100]) = 0"
    by (simp add: hd_map upt_conv_Cons)
  have l: "last (map (\<lambda>upTo. rat_of_nat upTo / 100) [0..<100]) = 99 / 100"
    by (simp add: last_map)
  show ?thesis
    unfolding p
  proof (intro conjI)
    show "length (map (\<lambda>upTo. rat_of_nat upTo / 100) [0..<100]) = 100" by simp
  qed (rule main_long [OF assms] refl s h l)+
qed

theorem long_task_progress_witness:
  "hd (progress_reports (main (remote_const 500 JNull) [''pyplugin.py''] (Some (input0 ''long'')))) = 0 \<and>
   last (progress_reports (main (remote_const 500 JNull) [''pyplugin.py''] (Some (input0 ''long''))))
     = 99 / 100 \<and>
   length (progress_reports (main (remote_const 500 JNull) [''pyplugin.py''] (Some (input0 ''long''))))
     = 100"
proof -
  have i: "main_input [''pyplugin.py''] (Some (input0 ''long'')) []
             = (Inr (input0 ''long''), [LogDebug [Text ''Raw input: '', Dumps (input0 ''long'')]])"
    by (simp add: main_input_def readJSONInput_def io_defs)
  have m: "mode_of (input0 ''long'') = Inr (JStr ''long'')"
    by (simp add: mode_of_def input0_def bindE_def)
  show ?thesis
    using long_task_progress [OF i m, of "remote_const 500 JNull"] by argo
qed

text \<open>
  The claim as stated fails at both ends: the first report is 0, not 0.01, the last is
  0.99, and 1.00 is never reported.
\<close>

theorem long_task_progress_counterexample:
  "hd (progress_reports (main (remote_const 200 JNull) [''pyplugin.py'', ''long''] None)) = 0 \<and>
   last (progress_reports (main (remote_const 200 JNull) [''pyplugin.py'', ''long''] None))
     = 99 / 100 \<and>
   1 \<notin> set (progress_reports (main (remote_const 200 JNull) [''pyplugin.py'', ''long''] None))"
proof -
  let ?input = "JObj [(''args'', JObj [(''mode'', JStr ''long'')]),
                      (''server_connection'',
                         JObj [(''Scheme'', JStr ''http''), (''Port'', JNum 9999)])]"
  let ?w0 = "[LogDebug [Text ''Using command line inputs''],
              LogDebug [Text ''Command line inputs: '', Str (JArr [JStr ''long''])]]"
  have i: "main_input [''pyplugin.py'', ''long''] None [] = (Inr ?input, ?w0)"
    by (simp add: main_input_def io_defs Let_def)
  have m: "mode_of ?input = Inr (JStr ''long'')"
    by (simp add: mode_of_def bindE_def)
  have p: "progress_reports (main (remote_const 200 JNull) [''pyplugin.py'', ''long''] None)
             = map (\<lambda>upTo. rat_of_nat upTo / 100) [0..<100]"
    by (simp add: main_long [OF i m] progress_reports_def progress_of_steps)
  have h: "hd (map (\<lambda>upTo. rat_of_nat upTo / 100) [0..<100]) = 0"
    by (simp add: hd_map upt_conv_Cons)
  have l: "last (map (\<lambda>upTo. rat_of_nat upTo / 100) [0..<100]) = 99 / 100"
    by (simp add: last_map)
  have n: "1 \<notin> set (map (\<lambda>upTo. rat_of_nat upTo / 100) [0..<100])"
    by auto
  show ?thesis
    unfolding p by (intro conjI) (rule h l n)+
qed

text \<open>
  C6. For every execute call whose HTTP response has a status outside 200..299, the client
  fails with the exception that carries the status code and the raw body
  (\<^verbatim>\<open>"GraphQL query failed:{status} - {content}. ..."\<close>, the transport error of the
  specification). The outcome is the same whatever \<^verbatim>\<open>response.json()\<close> would return: the
  body is not decoded, and neither \<^verbatim>\<open>error\<close> nor \<^verbatim>\<open>data\<close> is looked at.
\<close>

theorem callGraphQL_non_2xx:
  assumes "net (posts_of w) (graphql_request self query variables) = Inr resp"
    and "\<not> (200 \<le> status_code resp \<and> status_code resp < 300)"
  shows "callGraphQL net self query variables w =
           (Inl (Exception
                  [Text ''GraphQL query failed:'', Str (JNum (status_code resp)),
                   Text '' - '', Bytes (content resp),
                   Text ''. Query: '', Text query,
                   Text ''. Variables: '', Str variables]),
            w @ [Post (graphql_request self query variables)])"
  using assms by (auto simp: callGraphQL_def io_defs)

theorem callGraphQL_non_2xx_witness:
  "remote_const 404 (JObj [(''data'', JObj [(''allTags'', JArr [])])]) (posts_of [])
       (graphql_request client0 allTags_query JNull)
     = Inr \<lparr>status_code = 404, content = [],
            response_json = Some (JObj [(''data'', JObj [(''allTags'', JArr [])])])\<rparr> \<and>
   \<not> (200 \<le> (404::int) \<and> (404::int) < 300) \<and>
   callGraphQL (remote_const 404 (JObj [(''data'', JObj [(''allTags'', JArr [])])]))
       client0 allTags_query JNull []
     = (Inl (Exception
              [Text ''GraphQL query failed:'', Str (JNum 404),
               Text '' - '', Bytes [],
               Text ''. Query: '', Text allTags_query,
               Text ''. Variables: '', Str JNull]),
        [Post (graphql_request client0 allTags_query JNull)])"
  using callGraphQL_non_2xx [of "remote_const 404 (JObj [(''data'', JObj [(''allTags'', JArr [])])])"
      "[]" client0 allTags_query JNull
      "\<lparr>status_code = 404, content = [],
            response_json = Some (JObj [(''data'', JObj [(''allTags'', JArr [])])])\<rparr>"]
  by (simp add: remote_const_def reply_def)

text \<open>
  C7. With a first command-line argument, \<^verbatim>\<open>main\<close> builds the input with that mode and
  the connection \<^verbatim>\<open>{"Scheme": "http", "Port": 9999}\<close>. The claim asks that the client can
  be built from it. It cannot: the connection has no \<^verbatim>\<open>SessionCookie\<close>,
  \<^verbatim>\<open>conn.get('SessionCookie')\<close> is \<^verbatim>\<open>None\<close>, and \<^verbatim>\<open>StashInterface\<close> raises
  \<^verbatim>\<open>AttributeError\<close>; for the modes \<^verbatim>\<open>""\<close>, \<^verbatim>\<open>"add"\<close> and \<^verbatim>\<open>"remove"\<close> the process ends
  with that exception before any request is sent.
\<close>

theorem command_line_client_fails:
  assumes "2 \<le> length argv"
    and "argv ! 1 = [] \<or> argv ! 1 = ''add'' \<or> argv ! 1 = ''remove''"
  shows "main_input argv stdin [] =
           (Inr (JObj [(''args'', JObj [(''mode'', JStr (argv ! 1))]),
                       (''server_connection'',
                          JObj [(''Scheme'', JStr ''http''), (''Port'', JNum 9999)])]),
            [LogDebug [Text ''Using command line inputs''],
             LogDebug [Text ''Command line inputs: '', Str (JArr (map JStr (drop 1 argv)))]]) \<and>
         StashInterface (JObj [(''Scheme'', JStr ''http''), (''Port'', JNum 9999)])
           = Inl AttributeError \<and>
         main net argv stdin =
           Some (Inl AttributeError,
                 [LogDebug [Text ''Using command line inputs''],
                  LogDebug [Text ''Command line inputs: '',
                            Str (JArr (map JStr (drop 1 argv)))]])"
  using assms
  by (auto simp: main_def main_input_def run_def StashInterface_def py_in_def io_defs Let_def)

theorem command_line_client_fails_witness:
  "main (remote0 [tag0] (Some (JStr ''5'')) []) [''pyplugin.py'', ''add''] None =
     Some (Inl AttributeError,
           [LogDebug [Text ''Using command line inputs''],
            LogDebug [Text ''Command line inputs: '', Str (JArr [JStr ''add''])]])"
proof -
  have 1: "2 \<le> length [''pyplugin.py'', ''add'']" by simp
  have 2: "[''pyplugin.py'', ''add''] ! 1 = [] \<or> [''pyplugin.py'', ''add''] ! 1 = ''add'' \<or>
           [''pyplugin.py'', ''add''] ! 1 = ''remove''" by simp
  show ?thesis
    using command_line_client_fails [OF 1 2, of None "remote0 [tag0] (Some (JStr ''5'')) []"]
    by simp
qed

text \<open>
  C8, as the code has it. Two add operations in succession on the same scene, the second
  reading as the scene's tag ids what the first has sent: when the scene's tag ids held
  the tag's id at most once before the first call, the second call sends the same tag ids
  as the first, and they hold the tag's id exactly once.
\<close>

theorem add_twice_same_tags:
  assumes "findTagIdWithName net client ''Hawwwwt'' w0 = (Inr found, w1)"
    and "(if found = JNull then createTagWithName net client ''Hawwwwt'' else ret found) w1
           = (Inr tagID, w2)"
    and "findRandomSceneId net client w2 = (Inr scene, w3)"
    and "scene \<noteq> JNull"
    and "scene_tag_ids scene = Inr tagIds"
    and "py_getitem scene ''id'' = Inr sceneId"
    and "py_count tagIds tagID \<le> 1"
    and "snd (addTag net client w0) = v0"
    and "findTagIdWithName net client ''Hawwwwt'' v0 = (Inr found', v1)"
    and "(if found' = JNull then createTagWithName net client ''Hawwwwt'' else ret found') v1
           = (Inr tagID, v2)"
    and "findRandomSceneId net client v2 = (Inr scene', v3)"
    and "scene' \<noteq> JNull"
    and "py_getitem scene' ''id'' = Inr sceneId"
    and "tag_ids_of (last (posts_of v0)) = Inr (JArr ids)"
    and "scene_tag_ids scene' = Inr ids"
  shows "tag_ids_of (last (posts_of (snd (addTag net client v0)))) = Inr (JArr ids) \<and>
         py_count ids tagID = 1"
proof -
  let ?rest = "without_first tagIds tagID"
  have "snd (addTag net client w0) =
          w3 @ [LogInfo [Text ''Adding tag to scene '', Str sceneId],
                Post (sceneUpdate_request client
                        (JObj [(''id'', sceneId), (''tag_ids'', JArr (?rest @ [tagID]))]))]"
    using addTag_update [OF assms(1-6)] by (simp add: updateScene_trace)
  with assms(8,14) have ids: "ids = ?rest @ [tagID]"
    by auto
  have none: "py_count ?rest tagID = 0"
    using assms(7) by (simp add: without_first_count)
  then have again: "without_first (?rest @ [tagID]) tagID = ?rest"
    by (rule without_first_last)
  have "snd (addTag net client v0) =
          v3 @ [LogInfo [Text ''Adding tag to scene '', Str sceneId],
                Post (sceneUpdate_request client
                        (JObj [(''id'', sceneId),
                               (''tag_ids'', JArr (without_first ids tagID @ [tagID]))]))]"
    using addTag_update [OF assms(9-12) assms(15) assms(13)] by (simp add: updateScene_trace)
  then have "tag_ids_of (last (posts_of (snd (addTag net client v0)))) = Inr (JArr ids)"
    by (simp add: ids again)
  moreover have "py_count ids tagID = 1"
    using none by (simp add: ids)
  ultimately show ?thesis ..
qed

theorem add_twice_same_tags_witness:
  "tag_ids_of (last (posts_of (snd
      (addTag (remote0 [tag0] (Some (JStr ''5'')) [JStr ''7'', JStr ''9'', JStr ''8'']) client0
        (snd (addTag (remote0 [tag0] (Some (JStr ''5'')) [JStr ''7'', JStr ''9'', JStr ''8''])
                client0 []))))))
     = Inr (JArr [JStr ''7'', JStr ''8'', JStr ''9'']) \<and>
   py_count [JStr ''7'', JStr ''8'', JStr ''9''] (JStr ''9'') = 1"
proof -
  let ?net = "remote0 [tag0] (Some (JStr ''5'')) [JStr ''7'', JStr ''9'', JStr ''8'']"
  let ?scene = "JObj [(''id'', JStr ''5''),
               (''tags'', JArr [JObj [(''id'', JStr ''7'')], JObj [(''id'', JStr ''9'')],
                               JObj [(''id'', JStr ''8'')]])]"
  let ?scene' = "JObj [(''id'', JStr ''5''),
               (''tags'', JArr [JObj [(''id'', JStr ''7'')], JObj [(''id'', JStr ''8'')],
                               JObj [(''id'', JStr ''9'')]])]"
  let ?v0 = "[Post (allTags_request client0), Post (findScenes_request client0),
              LogInfo [Text ''Adding tag to scene '', Str (JStr ''5'')],
              Post (sceneUpdate_request client0
                      (JObj [(''id'', JStr ''5''),
                             (''tag_ids'', JArr [JStr ''7'', JStr ''8'', JStr ''9''])]))]"
  have 1: "findTagIdWithName ?net client0 ''Hawwwwt'' []
             = (Inr (JStr ''9''), [Post (allTags_request client0)])"
    by (simp add: client_defs sample_defs io_defs graphql_request_def)
  have 2: "(if JStr ''9'' = JNull then createTagWithName ?net client0 ''Hawwwwt''
            else ret (JStr ''9'')) [Post (allTags_request client0)]
             = (Inr (JStr ''9''), [Post (allTags_request client0)])"
    by (simp add: ret_def)
  have 3: "findRandomSceneId ?net client0 [Post (allTags_request client0)]
             = (Inr ?scene, [Post (allTags_request client0), Post (findScenes_request client0)])"
    by (simp add: client_defs sample_defs io_defs graphql_request_def)
  have 4: "?scene \<noteq> JNull" by simp
  have 5: "scene_tag_ids ?scene = Inr [JStr ''7'', JStr ''9'', JStr ''8'']"
    by (simp add: scene_tag_ids_def bindE_def)
  have 6: "py_getitem ?scene ''id'' = Inr (JStr ''5'')" by simp
  have 7: "py_count [JStr ''7'', JStr ''9'', JStr ''8''] (JStr ''9'') \<le> 1"
    by (simp add: py_count_def)
  have 8: "snd (addTag ?net client0 []) = ?v0"
    by (simp add: eval_defs)
  have 9: "findTagIdWithName ?net client0 ''Hawwwwt'' ?v0
             = (Inr (JStr ''9''), ?v0 @ [Post (allTags_request client0)])"
    by (simp add: client_defs sample_defs io_defs graphql_request_def)
  have 10: "(if JStr ''9'' = JNull then createTagWithName ?net client0 ''Hawwwwt''
            else ret (JStr ''9'')) (?v0 @ [Post (allTags_request client0)])
             = (Inr (JStr ''9''), ?v0 @ [Post (allTags_request client0)])"
    by (simp add: ret_def)
  have 11: "findRandomSceneId ?net client0 (?v0 @ [Post (allTags_request client0)])
             = (Inr ?scene', ?v0 @ [Post (allTags_request client0), Post (findScenes_request client0)])"
    by (simp add: client_defs sample_defs io_defs graphql_request_def)
  have 12: "?scene' \<noteq> JNull" by simp
  have 13: "py_getitem ?scene' ''id'' = Inr (JStr ''5'')" by simp
  have 14: "tag_ids_of (last (posts_of ?v0)) = Inr (JArr [JStr ''7'', JStr ''8'', JStr ''9''])"
    by simp
  have 15: "scene_tag_ids ?scene' = Inr [JStr ''7'', JStr ''8'', JStr ''9'']"
    by (simp add: scene_tag_ids_def bindE_def)
  show ?thesis
    using add_twice_same_tags [OF 1 2 3 4 5 6 7 8 9 10 11 12 13 14 15]
    by (simp add: 8)
qed

text \<open>
  The claim as stated fails on a scene whose tag list holds the tag's id twice: after the
  second call it still holds it twice.
\<close>

theorem add_twice_same_tags_counterexample:
  "tag_ids_of (last (posts_of (snd
      (addTag (remote0 [tag0] (Some (JStr ''5'')) [JStr ''9'', JStr ''9'']) client0
        (snd (addTag (remote0 [tag0] (Some (JStr ''5'')) [JStr ''9'', JStr ''9''])
                client0 []))))))
     = Inr (JArr [JStr ''9'', JStr ''9'']) \<and>
   py_count [JStr ''9'', JStr ''9''] (JStr ''9'') = 2"
  by (simp add: eval_defs py_count_def)

text \<open>
  C9. The claim asks that every invocation with mode \<^verbatim>\<open>"remove"\<close> succeeds as a no-op when
  no remote tag has the fixed name. The code does so only when the connection carries a
  session cookie (\<open>remove_absent_tag_noop\<close>). Without one, and so for every invocation
  from the command line, \<^verbatim>\<open>StashInterface\<close> raises \<^verbatim>\<open>AttributeError\<close>, whatever tags the
  remote has: the process ends with that exception, no request sent and nothing printed.
\<close>

theorem remove_without_session_cookie:
  assumes "main_input argv stdin [] = (Inr input, w0)"
    and "mode_of input = Inr (JStr ''remove'')"
    and "py_getitem input ''server_connection'' = Inr conn"
    and "py_getitem conn ''Port'' = Inr p"
    and "py_getitem conn ''Scheme'' = Inr scheme"
    and "py_get conn ''SessionCookie'' = Inr JNull"
  shows "main net argv stdin = Some (Inl AttributeError, w0) \<and>
         posts_of w0 = [] \<and> prints_of w0 = []"
proof -
  have "client_of input = Inl AttributeError"
    using assms(3-6) by (simp add: client_of_def StashInterface_def bindE_def)
  then have "run net input [] w0 = Some (Inl AttributeError, w0)"
    using assms(2)
    by (simp add: run_def mode_of_def client_of_def py_in_def bindIO_def liftE_def)
  then show ?thesis
    using assms(1) main_input_trace [OF assms(1)] by (simp add: main_def)
qed

text \<open>
  On the command line \<^verbatim>\<open>pyplugin.py remove\<close>, against a remote whose only tag has another
  name (a tag query would find no match there):
\<close>

theorem remove_without_session_cookie_witness:
  "main (remote0 [JObj [(''id'', JStr ''3''), (''name'', JStr ''Other'')]] None [])
        [''pyplugin.py'', ''remove''] None
     = Some (Inl AttributeError,
             [LogDebug [Text ''Using command line inputs''],
              LogDebug [Text ''Command line inputs: '', Str (JArr [JStr ''remove''])]]) \<and>
   findTagIdWithName (remote0 [JObj [(''id'', JStr ''3''), (''name'', JStr ''Other'')]] None [])
        client0 ''Hawwwwt'' []
     = (Inr JNull, [Post (allTags_request client0)])"
proof -
  let ?net = "remote0 [JObj [(''id'', JStr ''3''), (''name'', JStr ''Other'')]] None []"
  let ?conn = "JObj [(''Scheme'', JStr ''http''), (''Port'', JNum 9999)]"
  let ?input = "JObj [(''args'', JObj [(''mode'', JStr ''remove'')]),
                      (''server_connection'', ?conn)]"
  let ?w0 = "[LogDebug [Text ''Using command line inputs''],
              LogDebug [Text ''Command line inputs: '', Str (JArr [JStr ''remove''])]]"
  have i: "main_input [''pyplugin.py'', ''remove''] None [] = (Inr ?input, ?w0)"
    by (simp add: main_input_def io_defs Let_def)
  have m: "mode_of ?input = Inr (JStr ''remove'')"
    by (simp add: mode_of_def bindE_def)
  have c: "py_getitem ?input ''server_connection'' = Inr ?conn" by simp
  have p: "py_getitem ?conn ''Port'' = Inr (JNum 9999)" by simp
  have s: "py_getitem ?conn ''Scheme'' = Inr (JStr ''http'')" by simp
  have k: "py_get ?conn ''SessionCookie'' = Inr JNull" by simp
  have t: "findTagIdWithName ?net client0 ''Hawwwwt'' []
             = (Inr JNull, [Post (allTags_request client0)])"
    by (simp add: client_defs sample_defs io_defs graphql_request_def)
  show ?thesis
    using remove_without_session_cookie [OF i m c p s k, of ?net] t by simp
qed

text \<open>
  C10. For every add invocation that reaches \<^verbatim>\<open>updateScene\<close> (the tag is found or
  created with id \<open>tagID\<close>, a scene is found, its tag ids \<open>tagIds\<close> and its id are read),
  the tag ids sent with \<^verbatim>\<open>sceneUpdate\<close> keep the scene's tag ids other than \<open>tagID\<close> in
  their order and end with \<open>tagID\<close>. Equal and other are Python's \<^verbatim>\<open>==\<close>. By
  \<open>addTag_reaches_update\<close>, no other invocation sends a \<^verbatim>\<open>sceneUpdate\<close>.
\<close>

theorem addTag_keeps_other_tags:
  assumes "findTagIdWithName net client ''Hawwwwt'' w0 = (Inr found, w1)"
    and "(if found = JNull then createTagWithName net client ''Hawwwwt'' else ret found) w1
           = (Inr tagID, w2)"
    and "findRandomSceneId net client w2 = (Inr scene, w3)"
    and "scene \<noteq> JNull"
    and "scene_tag_ids scene = Inr tagIds"
    and "py_getitem scene ''id'' = Inr sceneId"
  shows "let ids = without_first tagIds tagID @ [tagID] in
           snd (addTag net client w0) =
             w3 @ [LogInfo [Text ''Adding tag to scene '', Str sceneId],
                   Post (sceneUpdate_request client
                           (JObj [(''id'', sceneId), (''tag_ids'', JArr ids)]))] \<and>
           filter (\<lambda>e. \<not> py_eq e tagID) ids = filter (\<lambda>e. \<not> py_eq e tagID) tagIds \<and>
           last ids = tagID"
  using addTag_update [OF assms]
  by (simp add: Let_def updateScene_trace without_first_others)

theorem addTag_keeps_other_tags_witness:
  "snd (addTag (remote0 [tag0] (Some (JStr ''5'')) [JStr ''7'', JStr ''9'', JStr ''8''])
          client0 []) =
     [Post (allTags_request client0), Post (findScenes_request client0),
      LogInfo [Text ''Adding tag to scene '', Str (JStr ''5'')],
      Post (sceneUpdate_request client0
              (JObj [(''id'', JStr ''5''),
                     (''tag_ids'', JArr [JStr ''7'', JStr ''8'', JStr ''9''])]))] \<and>
   filter (\<lambda>e. \<not> py_eq e (JStr ''9'')) [JStr ''7'', JStr ''8'', JStr ''9'']
     = filter (\<lambda>e. \<not> py_eq e (JStr ''9'')) [JStr ''7'', JStr ''9'', JStr ''8''] \<and>
   last [JStr ''7'', JStr ''8'', JStr ''9''] = JStr ''9''"
proof -
  let ?net = "remote0 [tag0] (Some (JStr ''5'')) [JStr ''7'', JStr ''9'', JStr ''8'']"
  let ?scene = "JObj [(''id'', JStr ''5''),
               (''tags'', JArr [JObj [(''id'', JStr ''7'')], JObj [(''id'', JStr ''9'')],
                               JObj [(''id'', JStr ''8'')]])]"
  have 1: "findTagIdWithName ?net client0 ''Hawwwwt'' []
             = (Inr (JStr ''9''), [Post (allTags_request client0)])"
    by (simp add: client_defs sample_defs io_defs graphql_request_def)
  have 2: "(if JStr ''9'' = JNull then createTagWithName ?net client0 ''Hawwwwt''
            else ret (JStr ''9'')) [Post (allTags_request client0)]
             = (Inr (JStr ''9''), [Post (allTags_request client0)])"
    by (simp add: ret_def)
  have 3: "findRandomSceneId ?net client0 [Post (allTags_request client0)]
             = (Inr ?scene, [Post (allTags_request client0), Post (findScenes_request client0)])"
    by (simp add: client_defs sample_defs io_defs graphql_request_def)
  have 4: "?scene \<noteq> JNull" by simp
  have 5: "scene_tag_ids ?scene = Inr [JStr ''7'', JStr ''9'', JStr ''8'']"
    by (simp add: scene_tag_ids_def bindE_def)
  have 6: "py_getitem ?scene ''id'' = Inr (JStr ''5'')" by simp
  show ?thesis
    using addTag_keeps_other_tags [OF 1 2 3 4 5 6]
    by (simp add: without_first_def Let_def)
qed

end
